theory Spec2Isabelle
  imports Main "HOL-Library.Word"
begin

unbundle bit_operations_syntax

section \<open>Flash descriptor regions\<close>

type_synonym u8 = "8 word"
type_synonym u16 = "16 word"
type_synonym u32 = "32 word"

text \<open>
  Modelled from the spec: the methods \<open>Valid\<close>, \<open>BaseOffset\<close> and \<open>EndOffset\<close> of
  \<open>Region\<close> are exercised by \<open>pkg/uefi/region_test.go\<close> but their bodies are not part of
  the sources at hand. The region table entry is \<open>(Base: u16, Limit: u16)\<close>; the test table
  compares the two offsets against \<open>uint32\<close> values, so both fields are widened to 32 bits
  before the increment and the shift.
\<close>

record Region =
  Base :: u16
  Limit :: u16

definition Valid :: "Region \<Rightarrow> bool" where
  "Valid r = (Limit r \<ge> Base r \<and> Limit r \<noteq> 0)"

definition BaseOffset :: "Region \<Rightarrow> u32" where
  "BaseOffset r = push_bit 12 (ucast (Base r))"

definition EndOffset :: "Region \<Rightarrow> u32" where
  "EndOffset r = push_bit 12 (ucast (Limit r) + 1)"

text \<open>The rows of \<open>regionTestcases\<close>: input, expected validity, base and end offset.\<close>

definition regionTestcases :: "(Region \<times> bool \<times> u32 \<times> u32) list" where
  "regionTestcases =
    [(\<lparr>Base = 0, Limit = 0\<rparr>, False, 0, 0x1000),
     (\<lparr>Base = 1, Limit = 0\<rparr>, False, 0x1000, 0x1000),
     (\<lparr>Base = 1, Limit = 1\<rparr>, True, 0x1000, 0x2000),
     (\<lparr>Base = 100, Limit = 200\<rparr>, True, 0x64000, 0xC9000),
     (\<lparr>Base = 0x0004, Limit = 0xFFFF\<rparr>, True, 0x00004000, 0x10000000)]"

definition region_row_ok :: "Region \<times> bool \<times> u32 \<times> u32 \<Rightarrow> bool" where
  "region_row_ok row =
     (case row of (r, v, b, e) \<Rightarrow> Valid r = v \<and> BaseOffset r = b \<and> EndOffset r = e)"

section \<open>Byte slices, errors and little-endian reads\<close>

text \<open>
  A Go slice has a length and a capacity: \<open>content\<close> holds the bytes below the length,
  \<open>beyond\<close> the bytes of the backing array between the length and the capacity. A slice
  expression \<open>s[lo:hi]\<close> is legal up to the capacity and panics past it; \<open>s[lo:]\<close> ends
  at the length.
\<close>

record byteslice =
  content :: "u8 list"
  beyond :: "u8 list"

definition len :: "byteslice \<Rightarrow> nat" where
  "len s = length (content s)"

definition cap :: "byteslice \<Rightarrow> nat" where
  "cap s = length (content s) + length (beyond s)"

datatype error =
    Panic
  | FVSizeTooSmall nat nat
  | EOF
  | ErrUnexpectedEOF
  | ExtHeaderUnparsable error
  | LogFatal "u8 list"
  | BufferBiggerThanLength nat nat
  | HeaderSizeMismatch nat nat
  | FileError "u8 list" error
  | FirstBlockZeroSize
  | ChecksumOddLength nat
  | PadFileTooSmall nat
  | InsertInMiddle nat nat
  | UnknownGUIDDefined
  | CodecFailure

text \<open>\<open>s[lo:hi]\<close>, returning the bytes of the new slice.\<close>

definition slice_lo_hi :: "byteslice \<Rightarrow> nat \<Rightarrow> nat \<Rightarrow> error + u8 list" where
  "slice_lo_hi s lo hi =
     (if lo \<le> hi \<and> hi \<le> cap s
      then Inr (take (hi - lo) (drop lo (content s @ beyond s)))
      else Inl Panic)"

text \<open>\<open>s[lo:]\<close>.\<close>

definition slice_from :: "byteslice \<Rightarrow> nat \<Rightarrow> error + u8 list" where
  "slice_from s lo = (if lo \<le> len s then Inr (drop lo (content s)) else Inl Panic)"

text \<open>
  \<open>binary.Read\<close> of an \<open>n\<close>-byte value (\<open>0 < n\<close>) from a \<open>bytes.Reader\<close> whose unread
  bytes are \<open>r\<close>: \<open>io.EOF\<close> when nothing is left, \<open>io.ErrUnexpectedEOF\<close> when fewer than
  \<open>n\<close> bytes are left, else the bytes read and the rest.
\<close>

definition binary_Read :: "nat \<Rightarrow> u8 list \<Rightarrow> error + (u8 list \<times> u8 list)" where
  "binary_Read n r =
     (if r = [] then Inl EOF
      else if length r < n then Inl ErrUnexpectedEOF
      else Inr (take n r, drop n r))"

fun le_nat :: "u8 list \<Rightarrow> nat" where
  "le_nat [] = 0"
| "le_nat (b # bs) = unat b + 256 * le_nat bs"

definition le_word :: "u8 list \<Rightarrow> 'a::len word" where
  "le_word bs = word_of_nat (le_nat bs)"

section \<open>Firmware volumes: \<open>uefi/firmwarevolume.go\<close>\<close>

definition FirmwareVolumeFixedHeaderSize :: nat where
  "FirmwareVolumeFixedHeaderSize = 56"

definition FirmwareVolumeMinSize :: nat where
  "FirmwareVolumeMinSize = FirmwareVolumeFixedHeaderSize + 8"

definition FirmwareVolumeExtHeaderMinSize :: nat where
  "FirmwareVolumeExtHeaderMinSize = 20"

definition FirmwareVolumeGUIDs :: "(string \<times> string) list" where
  "FirmwareVolumeGUIDs =
    [(''7a9354d9-0468-444a-81ce-0bf617d890df'', ''FFS1''),
     (''8c8ce578-8a3d-4f1c-9935-896185c32dd3'', ''FFS2''),
     (''5473c07a-3dcb-4dca-bd6f-1e9689e7349a'', ''FFS3''),
     (''fff12b8d-7696-4c8b-a985-2747075b4f50'', ''NVRAM_EVSA''),
     (''cef5b9a3-476d-497f-9fdc-e98143e0422c'', ''NVRAM_NVAR''),
     (''00504624-8a59-4eeb-bd0f-6b36e96128e0'', ''NVRAM_EVSA2''),
     (''04adeead-61ff-4d31-b6ba-64f8bf901f5a'', ''APPLE_BOOT''),
     (''16b45da2-7d70-4aea-a58d-760e9ecb841d'', ''PFH1''),
     (''e360bdba-c3ce-46be-8f37-b231e5cb9f35'', ''PFH2'')]"

record Block =
  Count :: u32
  Size :: u32

record FirmwareVolumeFixedHeader =
  FileSystemGUID :: "u8 list"
  Length :: "64 word"
  Signature :: u32
  Attributes :: u32
  HeaderLen :: u16
  Checksum :: u16
  ExtHeaderOffset :: u16
  Reserved :: u8
  Revision :: u8

record FirmwareVolume = FirmwareVolumeFixedHeader +
  Blocks :: "Block list"
  FVName :: "u8 list"
  ExtHeaderSize :: u32
  guidString :: string
  guidName :: string
  buf :: "u8 list"

text \<open>The zero value of \<open>var fv FirmwareVolume\<close>.\<close>

definition zero_FirmwareVolume :: FirmwareVolume where
  "zero_FirmwareVolume =
     \<lparr>FileSystemGUID = replicate 16 0, Length = 0, Signature = 0, Attributes = 0,
      HeaderLen = 0, Checksum = 0, ExtHeaderOffset = 0, Reserved = 0, Revision = 0,
      Blocks = [], FVName = replicate 16 0, ExtHeaderSize = 0,
      guidString = [], guidName = [], buf = []\<rparr>"

text \<open>
  The 56 bytes of the fixed header, little-endian, in declaration order; the blank
  16-byte field at the front is read and dropped.
\<close>

definition read_FixedHeader :: "u8 list \<Rightarrow> FirmwareVolume \<Rightarrow> FirmwareVolume" where
  "read_FixedHeader b fv =
     fv\<lparr>FileSystemGUID := take 16 (drop 16 b),
        Length := le_word (take 8 (drop 32 b)),
        Signature := le_word (take 4 (drop 40 b)),
        Attributes := le_word (take 4 (drop 44 b)),
        HeaderLen := le_word (take 2 (drop 48 b)),
        Checksum := le_word (take 2 (drop 50 b)),
        ExtHeaderOffset := le_word (take 2 (drop 52 b)),
        Reserved := le_word (take 1 (drop 54 b)),
        Revision := le_word (take 1 (drop 55 b))\<rparr>"

definition read_Block :: "u8 list \<Rightarrow> Block" where
  "read_Block b = \<lparr>Count = le_word (take 4 b), Size = le_word (take 4 (drop 4 b))\<rparr>"

definition read_ExtHeader :: "u8 list \<Rightarrow> FirmwareVolume \<Rightarrow> FirmwareVolume" where
  "read_ExtHeader b fv =
     fv\<lparr>FVName := take 16 b, ExtHeaderSize := le_word (take 4 (drop 16 b))\<rparr>"

definition fvSig :: "u8 list" where
  "fvSig = [0x5F, 0x46, 0x56, 0x48]"

text \<open>
  The loop of \<open>FindFirmwareVolumeOffset\<close>, from the current \<open>offset\<close>. The offset is an
  \<open>int64\<close> that stays below the length of a slice, so it cannot wrap.
\<close>

function find_loop :: "byteslice \<Rightarrow> nat \<Rightarrow> error + int" where
  "find_loop data offset =
     (if offset < len data then
        (case slice_lo_hi data offset (offset + 4) of
           Inl e \<Rightarrow> Inl e
         | Inr s \<Rightarrow>
             if s = fvSig then Inr (int offset - 40)
             else find_loop data (offset + 8))
      else Inr (- 1))"
  by pat_completeness auto
termination
  by (relation "measure (\<lambda>(data, offset). len data - offset)") auto

definition FindFirmwareVolumeOffset :: "byteslice \<Rightarrow> error + int" where
  "FindFirmwareVolumeOffset data =
     (if len data < 32 then Inr (- 1) else find_loop data 32)"

text \<open>The block-map loop of \<open>NewFirmwareVolume\<close>; \<open>r\<close> is what the reader has left.\<close>

function read_blocks :: "u8 list \<Rightarrow> Block list \<Rightarrow> error + Block list" where
  "read_blocks r blocks =
     (case binary_Read 8 r of
        Inl e \<Rightarrow> Inl e
      | Inr (b, r') \<Rightarrow>
          if Count (read_Block b) = 0 \<and> Size (read_Block b) = 0 then Inr blocks
          else read_blocks r' (blocks @ [read_Block b]))"
  by pat_completeness auto
termination
  by (relation "measure (\<lambda>(r, blocks). length r)")
     (auto simp: binary_Read_def split: if_splits)

text \<open>
  \<open>NewFirmwareVolume\<close>. The textual form of a GUID comes from the UUID library, which is
  outside the sources at hand: it is the parameter \<open>uuid_String\<close>.
\<close>

definition NewFirmwareVolume ::
  "(u8 list \<Rightarrow> string) \<Rightarrow> byteslice \<Rightarrow> error + FirmwareVolume" where
  "NewFirmwareVolume uuid_String data =
     (if len data < FirmwareVolumeMinSize
      then Inl (FVSizeTooSmall FirmwareVolumeMinSize (len data))
      else
        (case binary_Read FirmwareVolumeFixedHeaderSize (content data) of
           Inl e \<Rightarrow> Inl e
         | Inr (hb, r) \<Rightarrow>
            (let fv = read_FixedHeader hb zero_FirmwareVolume in
             (case read_blocks r [] of
                Inl e \<Rightarrow> Inl e
              | Inr blocks \<Rightarrow>
                 (let fv = fv\<lparr>Blocks := blocks\<rparr> in
                  (case
                     (if ExtHeaderOffset fv \<noteq> 0 \<and>
                         (ucast (ExtHeaderOffset fv) :: 64 word)
                           < Length fv - word_of_nat FirmwareVolumeExtHeaderMinSize
                      then
                        (case slice_from data (unat (ExtHeaderOffset fv)) of
                           Inl e \<Rightarrow> Inl e
                         | Inr d \<Rightarrow>
                            (case binary_Read 20 d of
                               Inl e \<Rightarrow> Inl (ExtHeaderUnparsable e)
                             | Inr (eb, _) \<Rightarrow> Inr (read_ExtHeader eb fv)))
                      else Inr fv)
                   of
                     Inl e \<Rightarrow> Inl e
                   | Inr fv \<Rightarrow>
                      (let fv = fv\<lparr>guidString := uuid_String (FileSystemGUID fv)\<rparr>;
                           fv = fv\<lparr>guidName :=
                                  (case map_of FirmwareVolumeGUIDs (guidString fv) of
                                     Some n \<Rightarrow> n
                                   | None \<Rightarrow> ''Unknown'')\<rparr>
                       in
                       (case slice_lo_hi data 0 (unat (Length fv)) of
                          Inl e \<Rightarrow> Inl e
                        | Inr b \<Rightarrow> Inr (fv\<lparr>buf := b\<rparr>)))))))))"

section \<open>Support kernels of the assembler\<close>

text \<open>
  Modelled from the spec: \<open>Align\<close>, \<open>Align4\<close>, \<open>Align8\<close>, \<open>Checksum16\<close> and \<open>Erase\<close> are
  called by the visitor but declared outside the sources at hand. \<open>align(x, a)\<close> is the
  smallest \<open>y \<ge> x\<close> with \<open>y mod a = 0\<close>; \<open>checksum16\<close> is the 16-bit little-endian sum
  of 16-bit words and fails on a buffer of odd length; \<open>erase\<close> overwrites a buffer with
  the polarity byte.

  Offsets and lengths are \<open>uint64\<close> values in the visitor. Every one of them is the
  length of a buffer held in memory plus at most an alignment step, so none of the
  additions wraps, and every subtraction is of a value already known to be smaller; they
  are natural numbers here.
\<close>

definition Align :: "nat \<Rightarrow> nat \<Rightarrow> nat" where
  "Align val base = ((val + base - 1) div base) * base"

definition Align4 :: "nat \<Rightarrow> nat" where
  "Align4 val = Align val 4"

definition Align8 :: "nat \<Rightarrow> nat" where
  "Align8 val = Align val 8"

fun sum16 :: "u8 list \<Rightarrow> u16" where
  "sum16 (lo # hi # rest) = le_word [lo, hi] + sum16 rest"
| "sum16 _ = 0"

definition Checksum16 :: "u8 list \<Rightarrow> error + u16" where
  "Checksum16 b =
     (if odd (length b) then Inl (ChecksumOddLength (length b)) else Inr (sum16 b))"

definition Erase :: "u8 list \<Rightarrow> u8 \<Rightarrow> u8 list" where
  "Erase b polarity = replicate (length b) polarity"

text \<open>\<open>make([]byte, n)\<close>: \<open>n\<close> zero bytes.\<close>

definition make_bytes :: "nat \<Rightarrow> u8 list" where
  "make_bytes n = replicate n 0"

text \<open>
  \<open>binary.LittleEndian.PutUintN(b[off:], v)\<close> for an \<open>n\<close>-byte value: a run-time panic
  when fewer than \<open>n\<close> bytes follow \<open>off\<close>.
\<close>

fun le_bytes :: "nat \<Rightarrow> nat \<Rightarrow> u8 list" where
  "le_bytes 0 v = []"
| "le_bytes (Suc n) v = word_of_nat (v mod 256) # le_bytes n (v div 256)"

definition PutUint :: "nat \<Rightarrow> u8 list \<Rightarrow> nat \<Rightarrow> nat \<Rightarrow> error + u8 list" where
  "PutUint n b off v =
     (if length b < off + n then Inl Panic
      else Inr (take off b @ le_bytes n v @ drop (off + n) b))"

definition PutUint16 :: "u8 list \<Rightarrow> nat \<Rightarrow> u16 \<Rightarrow> error + u8 list" where
  "PutUint16 b off v = PutUint 2 b off (unat v)"

definition PutUint32 :: "u8 list \<Rightarrow> nat \<Rightarrow> u32 \<Rightarrow> error + u8 list" where
  "PutUint32 b off v = PutUint 4 b off (unat v)"

definition PutUint64 :: "u8 list \<Rightarrow> nat \<Rightarrow> 64 word \<Rightarrow> error + u8 list" where
  "PutUint64 b off v = PutUint 8 b off (unat v)"

section \<open>Nodes of the firmware tree\<close>

text \<open>
  Modelled from the spec: the node types of \<open>pkg/uefi\<close> are declared outside the sources
  at hand. A firmware volume node carries the fields of \<open>FirmwareVolume\<close> above and the
  computed \<open>DataOffset\<close>. A file header is
  \<open>UUID[16] | IntegrityCheck:u16 | Type:u8 | Attributes:u8 | Size:u24 | State:u8\<close>,
  followed by an 8-byte extended size when the large-file flag is set. A section header
  is \<open>Size:u24 | Type:u8\<close>, followed for a GUID-defined section by
  \<open>GUID[16] | DataOffset:u16 | Attributes:u16\<close>.
\<close>

record FirmwareVolumeNode = FirmwareVolume +
  DataOffset :: "64 word"

record FileHeader =
  fh_UUID :: "u8 list"
  fh_IntegrityCheck :: u16
  fh_Type :: u8
  fh_Attributes :: u8
  fh_Size :: "24 word"
  fh_State :: u8

record FileNode =
  Header :: FileHeader
  ExtendedSize :: "64 word"
  file_buf :: "u8 list"

record SectionGUIDDefined =
  gd_GUID :: "u8 list"
  gd_DataOffset :: u16
  gd_Attributes :: u16

record SectionNode =
  sh_Size :: "24 word"
  sh_Type :: u8
  TypeSpecific :: "SectionGUIDDefined option"
  sec_buf :: "u8 list"

datatype fv_tree = FV FirmwareVolumeNode (Files: "file_tree list")
  and file_tree = File FileNode (Sections: "section_tree list")
  and section_tree = Section SectionNode (Encapsulated: "firmware list")
  and firmware = FwVolume fv_tree | FwFile file_tree | FwSection section_tree

text \<open>The \<open>Buf()\<close> accessor of each node kind.\<close>

fun fv_Buf :: "fv_tree \<Rightarrow> u8 list" where
  "fv_Buf (FV v fs) = buf v"

fun file_Node :: "file_tree \<Rightarrow> FileNode" where
  "file_Node (File f ss) = f"

fun file_Buf :: "file_tree \<Rightarrow> u8 list" where
  "file_Buf (File f ss) = file_buf f"

fun section_Buf :: "section_tree \<Rightarrow> u8 list" where
  "section_Buf (Section s es) = sec_buf s"

fun Buf :: "firmware \<Rightarrow> u8 list" where
  "Buf (FwVolume v) = fv_Buf v"
| "Buf (FwFile f) = file_Buf f"
| "Buf (FwSection s) = section_Buf s"


section \<open>Helpers of \<open>pkg/uefi\<close> used by the visitor\<close>

text \<open>
  Modelled from the spec: \<open>GetErasePolarity\<close>, \<open>GetAlignment\<close>, \<open>HeaderLen\<close>,
  \<open>CreatePadFile\<close>, \<open>InsertFile\<close>, \<open>SetSize\<close>, \<open>ChecksumAndAssemble\<close> and
  \<open>GenSecHeader\<close> are called by the visitor but declared outside the sources at hand.
  The erase polarity is \<open>0x00\<close> or \<open>0xFF\<close>, decoded from the attributes of the volume;
  the alignment of a file's data is one of 1, 16, 128, 512, 1 KiB, 4 KiB, 32 KiB and
  64 KiB, selected by the file attributes; a file header is 24 bytes, 32 with the
  large-file flag. Where the spec names a field but not its bits, the bit positions are
  those of the UEFI PI layout the spec refers to: erase polarity is bit 11 of the volume
  attributes, the large-file flag bit 0 and the data alignment bits 3 to 5 of the file
  attributes.
\<close>

definition GetErasePolarity :: "FirmwareVolumeNode \<Rightarrow> u8" where
  "GetErasePolarity v = (if Attributes v AND 0x800 \<noteq> 0 then 0xFF else 0)"

definition FileHeaderMinLength :: nat where
  "FileHeaderMinLength = 24"

definition FileHeaderExtMinLength :: nat where
  "FileHeaderExtMinLength = 32"

definition fileAlignConst :: "nat list" where
  "fileAlignConst = [1, 16, 128, 512, 1024, 4096, 32768, 65536]"

definition GetAlignment :: "u8 \<Rightarrow> nat" where
  "GetAlignment a = fileAlignConst ! unat (drop_bit 3 (a AND 0x38))"

definition IsLarge :: "u8 \<Rightarrow> bool" where
  "IsLarge a = (a AND 0x01 \<noteq> 0)"

definition HeaderLen_of :: "FileNode \<Rightarrow> nat" where
  "HeaderLen_of f =
     (if IsLarge (fh_Attributes (Header f)) then FileHeaderExtMinLength
      else FileHeaderMinLength)"

text \<open>
  What the visitor takes from outside the tree codec, as parameters: the two LZMA
  encoders with the GUIDs that select them, and the rule for the two 8-bit integrity
  checksums of a file header, which the spec names (``per UEFI PI'') but does not
  define. The checksum rule receives the header bytes and the file data.

  The last parameter belongs to the Go runtime. The buffer of a volume grows by
  \<open>append\<close>, which leaves a backing array that may be longer than the buffer; a slice
  expression on the buffer is legal up to that capacity. \<open>spare b\<close> is what the backing
  array of the buffer \<open>b\<close> holds between the length and the capacity.
\<close>

record externals =
  lzma_Encode :: "u8 list \<Rightarrow> error + u8 list"
  lzma_EncodeX86 :: "u8 list \<Rightarrow> error + u8 list"
  LZMAGUID :: "u8 list"
  LZMAX86GUID :: "u8 list"
  integrity :: "u8 list \<Rightarrow> u8 list \<Rightarrow> u16"
  spare :: "u8 list \<Rightarrow> u8 list"

definition header_bytes :: "FileNode \<Rightarrow> u8 list" where
  "header_bytes f =
     (let h = Header f in
      fh_UUID h @ le_bytes 2 (unat (fh_IntegrityCheck h)) @ [fh_Type h, fh_Attributes h]
        @ le_bytes 3 (unat (fh_Size h)) @ [fh_State h]
        @ (if IsLarge (fh_Attributes h) then le_bytes 8 (unat (ExtendedSize f)) else []))"

text \<open>
  Modelled from the spec: \<open>SetSize(size, true)\<close> sets the 24-bit size field, or
  uses the extended header when the size does not fit. The spec fixes the threshold
  (16 MiB); the all-ones marker in the 24-bit field is an assumption that no theorem
  below depends on.
\<close>

definition SetSize :: "FileNode \<Rightarrow> nat \<Rightarrow> FileNode" where
  "SetSize f sz =
     (if sz \<ge> 2 ^ 24 then
        f\<lparr>Header := (Header f)\<lparr>fh_Size := 0xFFFFFF,
                                 fh_Attributes := fh_Attributes (Header f) OR 0x01\<rparr>,
          ExtendedSize := word_of_nat (sz + (FileHeaderExtMinLength - FileHeaderMinLength))\<rparr>
      else
        f\<lparr>Header := (Header f)\<lparr>fh_Size := word_of_nat sz,
                                 fh_Attributes := fh_Attributes (Header f) AND NOT 0x01\<rparr>,
          ExtendedSize := word_of_nat sz\<rparr>)"

definition ChecksumAndAssemble :: "externals \<Rightarrow> FileNode \<Rightarrow> u8 list \<Rightarrow> error + FileNode" where
  "ChecksumAndAssemble ext f fileData =
     (let f = f\<lparr>Header := (Header f)\<lparr>fh_IntegrityCheck :=
                                integrity ext (header_bytes f) fileData\<rparr>\<rparr>
      in Inr (f\<lparr>file_buf := header_bytes f @ fileData\<rparr>))"

text \<open>
  Modelled from the spec: \<open>CreatePadFile\<close> makes a file of the given total length,
  type \<open>0xF0\<close>, valid state, body filled with the erase polarity. The spec leaves the
  GUID of a pad file open; it is filled with the erase polarity here. A gap below
  \<open>FileHeaderMinLength\<close> cannot hold a pad file.
\<close>

definition CreatePadFile :: "externals \<Rightarrow> u8 \<Rightarrow> nat \<Rightarrow> error + FileNode" where
  "CreatePadFile ext polarity sz =
     (if sz < FileHeaderMinLength then Inl (PadFileTooSmall sz)
      else
        let f = \<lparr>Header = \<lparr>fh_UUID = replicate 16 polarity, fh_IntegrityCheck = 0,
                             fh_Type = 0xF0, fh_Attributes = 0, fh_Size = 0,
                             fh_State = 0x07 XOR polarity\<rparr>,
                 ExtendedSize = 0, file_buf = []\<rparr>;
            f = SetSize f sz
        in ChecksumAndAssemble ext f
             (Erase (make_bytes (sz - HeaderLen_of f)) polarity))"

text \<open>
  Modelled from the spec: \<open>InsertFile(alignedOffset, fBuf)\<close> works on the buffer of a
  volume; the hole up to the offset is filled with the erase polarity and the file
  appended; an offset inside what is already written is an error.
\<close>

definition InsertFile :: "u8 \<Rightarrow> u8 list \<Rightarrow> nat \<Rightarrow> u8 list \<Rightarrow> error + u8 list" where
  "InsertFile polarity b alignedOffset fBuf =
     (if length b > alignedOffset then Inl (InsertInMiddle alignedOffset (length b))
      else Inr (b @ Erase (make_bytes (alignedOffset - length b)) polarity @ fBuf))"

definition SectionMinLength :: nat where
  "SectionMinLength = 4"

definition SectionTypeGUIDDefined :: u8 where
  "SectionTypeGUIDDefined = 0x02"

definition GUIDEDSectionProcessingRequired :: u16 where
  "GUIDEDSectionProcessingRequired = 0x01"

definition type_specific_bytes :: "SectionNode \<Rightarrow> u8 list" where
  "type_specific_bytes s =
     (case TypeSpecific s of
        None \<Rightarrow> []
      | Some ts \<Rightarrow> gd_GUID ts @ le_bytes 2 (unat (gd_DataOffset ts))
                    @ le_bytes 2 (unat (gd_Attributes ts)))"

text \<open>
  Modelled from the spec: in \<open>GenSecHeader\<close> the header is regenerated in front of
  the payload held in the buffer, with the 24-bit size over payload and header and the
  type unchanged.
\<close>

definition section_header_bytes :: "SectionNode \<Rightarrow> u8 list" where
  "section_header_bytes s =
     le_bytes 3 (unat (sh_Size s)) @ [sh_Type s] @ type_specific_bytes s"

definition GenSecHeader :: "SectionNode \<Rightarrow> error + SectionNode" where
  "GenSecHeader s =
     (let sz = length (sec_buf s) + SectionMinLength + length (type_specific_bytes s);
          s = s\<lparr>sh_Size := word_of_nat sz\<rparr>
      in Inr (s\<lparr>sec_buf := section_header_bytes s @ sec_buf s\<rparr>))"


section \<open>The \<open>Assemble\<close> visitor\<close>

text \<open>
  The loop shared by the \<open>File\<close> and \<open>Section\<close> cases: the buffers of the children are
  appended to \<open>data\<close>, each one after \<open>Align4(dLen) - dLen\<close> bytes of \<open>0x00\<close>; \<open>dLen\<close>
  is the running length the loop keeps beside the data.
\<close>

fun concat_loop :: "u8 list \<Rightarrow> nat \<Rightarrow> u8 list list \<Rightarrow> u8 list \<times> nat" where
  "concat_loop data dLen [] = (data, dLen)"
| "concat_loop data dLen (sData # rest) =
     (let data = data @ replicate (Align4 dLen - dLen) 0x00;
          dLen = Align4 dLen;
          dLen = dLen + length sData;
          data = data @ sData
      in concat_loop data dLen rest)"

text \<open>
  The offset at which a file with a data alignment other than 1 starts: the data, not
  the header, is aligned, and a gap too small for a pad file moves the data to the
  next boundary.
\<close>

definition new_offset :: "nat \<Rightarrow> nat \<Rightarrow> nat \<Rightarrow> nat" where
  "new_offset alignedOffset hl alignBase =
     (let fileDataOffset = Align (alignedOffset + hl) alignBase;
          newOffset = fileDataOffset - hl;
          gap = newOffset - alignedOffset
      in if gap \<ge> 8 \<and> gap < FileHeaderMinLength
         then Align (fileDataOffset + 1) alignBase - hl
         else newOffset)"

text \<open>
  One round of the loop over \<open>f.Files\<close>: \<open>b\<close> is the buffer of the volume so far and
  \<open>fileOffset\<close> the end of the previous file. \<open>log.Fatal\<close> ends the process.
\<close>

definition place_file ::
  "externals \<Rightarrow> u8 \<Rightarrow> u8 list \<Rightarrow> nat \<Rightarrow> FileNode \<Rightarrow> error + (u8 list \<times> nat)" where
  "place_file ext polarity b fileOffset file =
     (let fileBuf = file_buf file; fileLen = length fileBuf in
      if fileLen = 0 then Inl (LogFatal (fh_UUID (Header file)))
      else
        let alignedOffset = Align8 fileOffset;
            alignBase = GetAlignment (fh_Attributes (Header file))
        in
        case
          (if alignBase \<noteq> 1 then
             let hl = HeaderLen_of file;
                 newOffset = new_offset alignedOffset hl alignBase
             in
             if newOffset \<noteq> alignedOffset then
               (case CreatePadFile ext polarity (newOffset - alignedOffset) of
                  Inl e \<Rightarrow> Inl e
                | Inr pfile \<Rightarrow>
                    (case InsertFile polarity b alignedOffset (file_buf pfile) of
                       Inl e \<Rightarrow> Inl (FileError (fh_UUID (Header pfile)) e)
                     | Inr b' \<Rightarrow> Inr (b', newOffset)))
             else Inr (b, newOffset)
           else Inr (b, alignedOffset))
        of
          Inl e \<Rightarrow> Inl e
        | Inr (b, alignedOffset) \<Rightarrow>
            (case InsertFile polarity b alignedOffset fileBuf of
               Inl e \<Rightarrow> Inl (FileError (fh_UUID (Header file)) e)
             | Inr b' \<Rightarrow> Inr (b', alignedOffset + fileLen)))"

fun place_files ::
  "externals \<Rightarrow> u8 \<Rightarrow> u8 list \<Rightarrow> nat \<Rightarrow> FileNode list \<Rightarrow> error + (u8 list \<times> nat)" where
  "place_files ext polarity b fileOffset [] = Inr (b, fileOffset)"
| "place_files ext polarity b fileOffset (file # rest) =
     (case place_file ext polarity b fileOffset file of
        Inl e \<Rightarrow> Inl e
      | Inr (b', fileOffset') \<Rightarrow> place_files ext polarity b' fileOffset' rest)"

text \<open>
  After the loop: a volume that has outgrown its declared length is resized to the
  next multiple of the first block's size. Indexing an empty block list is a run-time
  panic.
\<close>

definition resize :: "FirmwareVolumeNode \<Rightarrow> nat \<Rightarrow> error + FirmwareVolumeNode" where
  "resize v newFVLen =
     (if unat (Length v) < newFVLen then
        (case Blocks v of
           [] \<Rightarrow> Inl Panic
         | blk # blks \<Rightarrow>
             if Size blk = 0 then Inl FirstBlockZeroSize
             else
               let l = (word_of_nat (Align newFVLen (unat (Size blk))) :: 64 word) in
               Inr (v\<lparr>Length := l,
                       Blocks := blk\<lparr>Count := ucast (l div ucast (Size blk))\<rparr> # blks\<rparr>))
      else Inr v)"

text \<open>
  The header is patched in place: length at offset 32, count of the first block at 56,
  checksum at 50. \<open>fBuf[:f.HeaderLen]\<close> is legal up to the capacity of the buffer: past
  the length it reads what the backing array holds there, and it is a run-time panic
  only past the capacity.
\<close>

definition patch_header ::
  "externals \<Rightarrow> FirmwareVolumeNode \<Rightarrow> u8 list \<Rightarrow> error + FirmwareVolumeNode" where
  "patch_header ext v fBuf =
     (case PutUint64 fBuf 32 (Length v) of
        Inl e \<Rightarrow> Inl e
      | Inr fBuf \<Rightarrow>
          (case Blocks v of
             [] \<Rightarrow> Inl Panic
           | blk # blks \<Rightarrow>
               (case PutUint32 fBuf 56 (Count blk) of
                  Inl e \<Rightarrow> Inl e
                | Inr fBuf \<Rightarrow>
                    (case PutUint16 fBuf 50 0 of
                       Inl e \<Rightarrow> Inl e
                     | Inr fBuf \<Rightarrow>
                         if unat (HeaderLen v) > length fBuf + length (spare ext fBuf)
                         then Inl Panic
                         else
                           (case Checksum16
                                   (take (unat (HeaderLen v)) (fBuf @ spare ext fBuf)) of
                              Inl e \<Rightarrow> Inl e
                            | Inr hsum \<Rightarrow>
                                let newSum = 0 - hsum in
                                (case PutUint16 fBuf 50 newSum of
                                   Inl e \<Rightarrow> Inl e
                                 | Inr fBuf \<Rightarrow> Inr (v\<lparr>buf := fBuf\<rparr>)))))))"

text \<open>
  The \<open>*uefi.FirmwareVolume\<close> case, once the children are assembled, in two parts.
  \<open>polarity\<close> is the value of the process-wide \<open>uefi.Attributes.ErasePolarity\<close> at that
  moment. The first part is the two checks on the incoming buffer and the loop over the
  files; it returns the buffer the loop leaves and the final file offset.
\<close>

definition placement ::
  "externals \<Rightarrow> u8 \<Rightarrow> FirmwareVolumeNode \<Rightarrow> FileNode list \<Rightarrow> error + (u8 list \<times> nat)" where
  "placement ext polarity v files =
     (let fBuf = buf v; fBufLen = length fBuf in
      if unat (Length v) < fBufLen
      then Inl (BufferBiggerThanLength (unat (Length v)) fBufLen)
      else if unat (DataOffset v) \<noteq> fBufLen
      then Inl (HeaderSizeMismatch fBufLen (unat (DataOffset v)))
      else place_files ext polarity fBuf (unat (DataOffset v)) files)"

text \<open>The whole case: nothing without files, else placement, resizing, fill and header.\<close>

definition assemble_FirmwareVolume ::
  "externals \<Rightarrow> u8 \<Rightarrow> FirmwareVolumeNode \<Rightarrow> FileNode list \<Rightarrow> error + FirmwareVolumeNode" where
  "assemble_FirmwareVolume ext polarity v files =
     (if length files = 0 then Inr v
      else
        (case placement ext polarity v files of
           Inl e \<Rightarrow> Inl e
         | Inr (b, fileOffset) \<Rightarrow>
             (let newFVLen = length b in
              (case resize v newFVLen of
                 Inl e \<Rightarrow> Inl e
               | Inr v \<Rightarrow>
                   (let b = (if unat (Length v) > newFVLen
                             then b @ Erase (make_bytes (unat (Length v) - newFVLen)) polarity
                             else b)
                    in patch_header ext v b)))))"

text \<open>The \<open>*uefi.File\<close> case, once the sections are assembled.\<close>

definition assemble_File ::
  "externals \<Rightarrow> u8 \<Rightarrow> FileNode \<Rightarrow> u8 list list \<Rightarrow> error + FileNode" where
  "assemble_File ext polarity f sections =
     (if length sections = 0 then
        let f = f\<lparr>Header := (Header f)\<lparr>fh_State := 0x07 XOR polarity\<rparr>\<rparr>;
            fBuf = file_buf f
        in if length fBuf \<le> 0x17 then Inl Panic
           else Inr (f\<lparr>file_buf := fBuf[0x17 := fh_State (Header f)]\<rparr>)
      else
        let (fileData, dLen) = concat_loop [] 0 sections;
            f = SetSize f (FileHeaderMinLength + dLen);
            f = f\<lparr>Header := (Header f)\<lparr>fh_State := 0x07 XOR polarity\<rparr>\<rparr>
        in ChecksumAndAssemble ext f fileData)"

text \<open>
  The \<open>*uefi.Section\<close> case, once the encapsulated nodes are assembled. The type
  assertion on the type-specific header panics when there is none.
\<close>

definition assemble_Section ::
  "externals \<Rightarrow> SectionNode \<Rightarrow> u8 list list \<Rightarrow> error + SectionNode" where
  "assemble_Section ext s encapsulated =
     (if length encapsulated = 0 then Inr s
      else
        let (secData, dLen) = concat_loop [] 0 encapsulated in
        case
          (if sh_Type s = SectionTypeGUIDDefined then
             (case TypeSpecific s of
                None \<Rightarrow> Inl Panic
              | Some ts \<Rightarrow>
                  if gd_Attributes ts AND GUIDEDSectionProcessingRequired \<noteq> 0 then
                    (if gd_GUID ts = LZMAGUID ext then
                       (case lzma_Encode ext secData of
                          Inl e \<Rightarrow> Inl e
                        | Inr fBuf \<Rightarrow> Inr (s\<lparr>sec_buf := fBuf\<rparr>))
                     else if gd_GUID ts = LZMAX86GUID ext then
                       (case lzma_EncodeX86 ext secData of
                          Inl e \<Rightarrow> Inl e
                        | Inr fBuf \<Rightarrow> Inr (s\<lparr>sec_buf := fBuf\<rparr>))
                     else Inl UnknownGUIDDefined)
                  else Inr s)
           else Inr (s\<lparr>sec_buf := secData\<rparr>))
        of
          Inl e \<Rightarrow> Inl e
        | Inr s \<Rightarrow> GenSecHeader s)"

text \<open>
  \<open>Visit\<close>, with the process-wide \<open>uefi.Attributes.ErasePolarity\<close> passed in and
  returned: it is assigned when a volume is entered and read when a file or a volume is
  rebuilt, after the children have been visited. \<open>ApplyChildren\<close> visits the direct
  children in order and stops at the first error. The cases of \<open>Visit\<close> for the flash
  descriptor, the BIOS region and the flash image are not used below and are left out.
\<close>

fun Visit_FV :: "externals \<Rightarrow> u8 \<Rightarrow> fv_tree \<Rightarrow> error + (u8 \<times> fv_tree)"
  and Visit_File :: "externals \<Rightarrow> u8 \<Rightarrow> file_tree \<Rightarrow> error + (u8 \<times> file_tree)"
  and Visit_Section :: "externals \<Rightarrow> u8 \<Rightarrow> section_tree \<Rightarrow> error + (u8 \<times> section_tree)"
  and Visit :: "externals \<Rightarrow> u8 \<Rightarrow> firmware \<Rightarrow> error + (u8 \<times> firmware)"
  and ApplyChildren_FV :: "externals \<Rightarrow> u8 \<Rightarrow> file_tree list \<Rightarrow> error + (u8 \<times> file_tree list)"
  and ApplyChildren_File ::
    "externals \<Rightarrow> u8 \<Rightarrow> section_tree list \<Rightarrow> error + (u8 \<times> section_tree list)"
  and ApplyChildren_Section ::
    "externals \<Rightarrow> u8 \<Rightarrow> firmware list \<Rightarrow> error + (u8 \<times> firmware list)"
where
  "Visit_FV ext polarity (FV v files) =
     (let polarity = GetErasePolarity v in
      case ApplyChildren_FV ext polarity files of
        Inl e \<Rightarrow> Inl e
      | Inr (polarity, files) \<Rightarrow>
          (case assemble_FirmwareVolume ext polarity v (map file_Node files) of
             Inl e \<Rightarrow> Inl e
           | Inr v \<Rightarrow> Inr (polarity, FV v files)))"
| "Visit_File ext polarity (File f sections) =
     (case ApplyChildren_File ext polarity sections of
        Inl e \<Rightarrow> Inl e
      | Inr (polarity, sections) \<Rightarrow>
          (case assemble_File ext polarity f (map section_Buf sections) of
             Inl e \<Rightarrow> Inl e
           | Inr f \<Rightarrow> Inr (polarity, File f sections)))"
| "Visit_Section ext polarity (Section s encapsulated) =
     (case ApplyChildren_Section ext polarity encapsulated of
        Inl e \<Rightarrow> Inl e
      | Inr (polarity, encapsulated) \<Rightarrow>
          (case assemble_Section ext s (map Buf encapsulated) of
             Inl e \<Rightarrow> Inl e
           | Inr s \<Rightarrow> Inr (polarity, Section s encapsulated)))"
| "Visit ext polarity (FwVolume v) =
     (case Visit_FV ext polarity v of
        Inl e \<Rightarrow> Inl e
      | Inr (polarity, v) \<Rightarrow> Inr (polarity, FwVolume v))"
| "Visit ext polarity (FwFile f) =
     (case Visit_File ext polarity f of
        Inl e \<Rightarrow> Inl e
      | Inr (polarity, f) \<Rightarrow> Inr (polarity, FwFile f))"
| "Visit ext polarity (FwSection s) =
     (case Visit_Section ext polarity s of
        Inl e \<Rightarrow> Inl e
      | Inr (polarity, s) \<Rightarrow> Inr (polarity, FwSection s))"
| "ApplyChildren_FV ext polarity [] = Inr (polarity, [])"
| "ApplyChildren_FV ext polarity (f # fs) =
     (case Visit_File ext polarity f of
        Inl e \<Rightarrow> Inl e
      | Inr (polarity, f) \<Rightarrow>
          (case ApplyChildren_FV ext polarity fs of
             Inl e \<Rightarrow> Inl e
           | Inr (polarity, fs) \<Rightarrow> Inr (polarity, f # fs)))"
| "ApplyChildren_File ext polarity [] = Inr (polarity, [])"
| "ApplyChildren_File ext polarity (s # ss) =
     (case Visit_Section ext polarity s of
        Inl e \<Rightarrow> Inl e
      | Inr (polarity, s) \<Rightarrow>
          (case ApplyChildren_File ext polarity ss of
             Inl e \<Rightarrow> Inl e
           | Inr (polarity, ss) \<Rightarrow> Inr (polarity, s # ss)))"
| "ApplyChildren_Section ext polarity [] = Inr (polarity, [])"
| "ApplyChildren_Section ext polarity (e # es) =
     (case Visit ext polarity e of
        Inl err \<Rightarrow> Inl err
      | Inr (polarity, e) \<Rightarrow>
          (case ApplyChildren_Section ext polarity es of
             Inl err \<Rightarrow> Inl err
           | Inr (polarity, es) \<Rightarrow> Inr (polarity, e # es)))"

section \<open>The layout of the children of a file or section, in the words of the spec\<close>




section \<open>The layout of the files of a volume, in the words of the spec\<close>

text \<open>
  Steps 1 to 3 of the placement of a file when the previous file ended at \<open>fileOffset\<close>:
  \<open>aligned = align8(fileOffset)\<close>; for a data alignment \<open>a > 1\<close>,
  \<open>fileDataOffset = align(aligned + header_len, a)\<close> and
  \<open>newOffset = fileDataOffset - header_len\<close>; if the gap \<open>newOffset - aligned\<close> is in
  \<open>[8, FileHeaderMinLength)\<close>, \<open>fileDataOffset = align(fileDataOffset + 1, a)\<close> and
  \<open>newOffset\<close> is recomputed.
\<close>

definition spec_file_start :: "nat \<Rightarrow> FileNode \<Rightarrow> nat" where
  "spec_file_start fileOffset file =
     (let aligned = Align8 fileOffset;
          a = GetAlignment (fh_Attributes (Header file));
          header_len = HeaderLen_of file
      in if a > 1 then
           (let fileDataOffset = Align (aligned + header_len) a;
                newOffset = fileDataOffset - header_len
            in if 8 \<le> newOffset - aligned \<and> newOffset - aligned < FileHeaderMinLength
               then Align (fileDataOffset + 1) a - header_len
               else newOffset)
         else aligned)"

text \<open>Step 5, repeated: where the last of the files ends when the first starts from \<open>off\<close>.\<close>

fun spec_files_end :: "nat \<Rightarrow> FileNode list \<Rightarrow> nat" where
  "spec_files_end off [] = off"
| "spec_files_end off (file # rest) =
     spec_files_end (spec_file_start off file + length (file_buf file)) rest"

text \<open>
  The bytes of the pad file that \<open>CreatePadFile\<close> makes for a gap, and none where it
  refuses to make one.
\<close>

definition pad_bytes :: "externals \<Rightarrow> u8 \<Rightarrow> nat \<Rightarrow> u8 list" where
  "pad_bytes ext polarity gap =
     (case CreatePadFile ext polarity gap of Inl e \<Rightarrow> [] | Inr pfile \<Rightarrow> file_buf pfile)"

text \<open>
  What fills a gap of the given size: nothing when the gap is empty, else a pad file of
  exactly the size of the gap: the bytes \<open>CreatePadFile\<close> makes, with the type \<open>0xF0\<close> at
  offset \<open>0x12\<close>, the size of the gap in the 24-bit size field at offset \<open>0x14\<close>, the valid
  state at offset \<open>0x17\<close> and a body of erase polarity.
\<close>

definition fills_gap :: "externals \<Rightarrow> u8 \<Rightarrow> nat \<Rightarrow> u8 list \<Rightarrow> bool" where
  "fills_gap ext polarity gap bs =
     (if gap = 0 then bs = []
      else length bs = gap
           \<and> bs = pad_bytes ext polarity gap
           \<and> bs ! 0x12 = 0xF0
           \<and> le_nat (take 3 (drop 0x14 bs)) = gap
           \<and> bs ! 0x17 = 0x07 XOR polarity
           \<and> drop FileHeaderMinLength bs = replicate (gap - FileHeaderMinLength) polarity)"

text \<open>
  The pad-file rule for the file \<open>file\<close> of a volume, between the files \<open>pre\<close> before it
  and \<open>post\<close> after it, in the buffer \<open>bF\<close> the assembler builds from the header buffer
  \<open>hdr\<close>. The file before it ends at \<open>e\<close>, or the header does when there is none; fewer
  than 8 bytes of erase polarity lead to the next multiple of 8; the gap from there to
  the start of the file is empty or at least \<open>FileHeaderMinLength\<close>, never in
  \<open>[8, FileHeaderMinLength)\<close>, and a pad file of exactly its size fills it; the bytes
  of the file follow; and the buffer ends with the last file.
\<close>

definition file_placed ::
  "externals \<Rightarrow> u8 \<Rightarrow> u8 list \<Rightarrow> FileNode list \<Rightarrow> FileNode \<Rightarrow> FileNode list \<Rightarrow> u8 list \<Rightarrow> bool"
  where
  "file_placed ext polarity hdr pre file post bF =
     (let e = spec_files_end (length hdr) pre;
          aligned = Align8 e;
          start = spec_file_start e file;
          gap = start - aligned
      in (case pre of
            [] \<Rightarrow> take e bF = hdr
          | _ # _ \<Rightarrow> length (file_buf (last pre)) \<le> e
                    \<and> take (length (file_buf (last pre)))
                         (drop (e - length (file_buf (last pre))) bF) = file_buf (last pre))
         \<and> e \<le> aligned \<and> aligned - e < 8 \<and> aligned mod 8 = 0
         \<and> take (aligned - e) (drop e bF) = replicate (aligned - e) polarity
         \<and> aligned \<le> start
         \<and> (gap = 0 \<or> FileHeaderMinLength \<le> gap)
         \<and> fills_gap ext polarity gap (take gap (drop aligned bF))
         \<and> take (length (file_buf file)) (drop start bF) = file_buf file
         \<and> start + length (file_buf file) \<le> length bF
         \<and> (case post of
               [] \<Rightarrow> length bF = start + length (file_buf file)
             | _ # _ \<Rightarrow> True))"

text \<open>
  A buffer without the three header fields that the volume case patches in place: the
  length at \<open>[32, 40)\<close>, the checksum at \<open>[50, 52)\<close> and the count of the first block at
  \<open>[56, 60)\<close>.
\<close>

definition outside_header_fields :: "u8 list \<Rightarrow> u8 list" where
  "outside_header_fields b =
     take 32 b @ take 10 (drop 40 b) @ take 4 (drop 52 b) @ drop 60 b"

text \<open>
  What the rebuilt volume \<open>v'\<close> holds, given the buffer \<open>bF\<close> with the files in place:
  that buffer, filled with erase polarity up to the length of the volume, the three
  patched header fields apart.
\<close>

definition emitted_from :: "u8 \<Rightarrow> FirmwareVolumeNode \<Rightarrow> u8 list \<Rightarrow> bool" where
  "emitted_from polarity v' bF =
     (let full = bF @ replicate (unat (Length v') - length bF) polarity
      in length (buf v') = length full
         \<and> outside_header_fields (buf v') = outside_header_fields full)"

section \<open>Example trees\<close>

text \<open>
  Stand-ins for the external collaborators, to run the visitor on concrete trees: the
  encoders return their input, the integrity bytes are zero and every buffer fills its
  backing array.
\<close>

definition example_externals :: externals where
  "example_externals =
     \<lparr>lzma_Encode = Inr, lzma_EncodeX86 = Inr,
      LZMAGUID = replicate 16 0x01, LZMAX86GUID = replicate 16 0x02,
      integrity = (\<lambda>hdr fileData. 0), spare = (\<lambda>b. [])\<rparr>"

text \<open>
  A 72-byte volume header: zero vector, the FFS2 GUID, length \<open>0x60\<close>, \<open>_FVH\<close>, the given
  attributes, the given header length, revision 2, one block of \<open>0x60\<close> bytes and the
  terminator of the block map.
\<close>

definition example_header :: "u8 \<Rightarrow> u8 \<Rightarrow> u8 list" where
  "example_header attr1 hl =
     replicate 16 0x00
     @ [0x78, 0xE5, 0x8C, 0x8C, 0x3D, 0x8A, 0x1C, 0x4F,
        0x99, 0x35, 0x89, 0x61, 0x85, 0xC3, 0x2D, 0xD3]
     @ [0x60, 0, 0, 0, 0, 0, 0, 0]
     @ [0x5F, 0x46, 0x56, 0x48]
     @ [0x00, attr1, 0x00, 0x00]
     @ [hl, 0x00] @ [0x00, 0x00] @ [0x00, 0x00] @ [0x00, 0x02]
     @ [0x01, 0, 0, 0, 0x60, 0, 0, 0]
     @ replicate 8 0x00"

definition example_volume :: "u8 \<Rightarrow> u8 \<Rightarrow> FirmwareVolumeNode" where
  "example_volume attr1 hl =
     \<lparr>FileSystemGUID = take 16 (drop 16 (example_header attr1 hl)),
      Length = 0x60, Signature = 0x4856465F, Attributes = push_bit 8 (ucast attr1),
      HeaderLen = ucast hl, Checksum = 0, ExtHeaderOffset = 0, Reserved = 0, Revision = 2,
      Blocks = [\<lparr>Count = 1, Size = 0x60\<rparr>], FVName = replicate 16 0, ExtHeaderSize = 0,
      guidString = ''8c8ce578-8a3d-4f1c-9935-896185c32dd3'', guidName = ''FFS2'',
      buf = example_header attr1 hl, DataOffset = 72\<rparr>"

text \<open>A file of 24 bytes, header only, with the given attributes.\<close>

definition example_file :: "u8 \<Rightarrow> FileNode" where
  "example_file attrs =
     \<lparr>Header = \<lparr>fh_UUID = replicate 16 0xAB, fh_IntegrityCheck = 0, fh_Type = 0x01,
                 fh_Attributes = attrs, fh_Size = 24, fh_State = 0x00\<rparr>,
      ExtendedSize = 24,
      file_buf = replicate 16 0xAB @ [0, 0, 0x01, attrs, 24, 0, 0, 0x00]\<rparr>"

text \<open>The same file once visited under erase polarity \<open>0xFF\<close>.\<close>

definition example_file_rebuilt :: "u8 \<Rightarrow> FileNode" where
  "example_file_rebuilt attrs =
     (example_file attrs)
       \<lparr>Header := (Header (example_file attrs))\<lparr>fh_State := 0xF8\<rparr>,
        file_buf := replicate 16 0xAB @ [0, 0, 0x01, attrs, 24, 0, 0, 0xF8]\<rparr>"

text \<open>
  The example volume of polarity \<open>0xFF\<close> once rebuilt around one plain example file,
  with the two checksum bytes given.
\<close>

definition example_volume_rebuilt :: "u8 \<Rightarrow> u8 list \<Rightarrow> FirmwareVolumeNode" where
  "example_volume_rebuilt hl chk =
     (example_volume 0x08 hl)
       \<lparr>buf := take 50 (example_header 0x08 hl) @ chk @ drop 52 (example_header 0x08 hl)
                @ file_buf (example_file_rebuilt 0x00)\<rparr>"

text \<open>
  The example volume of polarity \<open>0xFF\<close> once rebuilt around a plain example file and
  an example file with a data alignment of 16: the length grows to two blocks, a pad
  file of 24 bytes precedes the second file, and 48 bytes of \<open>0xFF\<close> fill the tail.
\<close>

definition example_two_files_rebuilt :: FirmwareVolumeNode where
  "example_two_files_rebuilt =
     (example_volume 0x08 72)
       \<lparr>Length := 192, Blocks := [\<lparr>Count = 2, Size = 0x60\<rparr>],
        buf := take 32 (example_header 0x08 72) @ [192, 0, 0, 0, 0, 0, 0, 0]
               @ take 10 (drop 40 (example_header 0x08 72)) @ [176, 236]
               @ take 4 (drop 52 (example_header 0x08 72)) @ [2, 0, 0, 0]
               @ drop 60 (example_header 0x08 72)
               @ file_buf (example_file_rebuilt 0x00)
               @ pad_bytes example_externals 0xFF 24
               @ file_buf (example_file_rebuilt 0x08)
               @ replicate 48 0xFF\<rparr>"

text \<open>
  The example file once rebuilt, under erase polarity \<open>0xFF\<close>, around two sections
  of 3 and 2 bytes: one byte of \<open>0x00\<close> between them and a size of 30.
\<close>

definition example_file_with_children :: FileNode where
  "example_file_with_children =
     (example_file 0x00)
       \<lparr>Header := (Header (example_file 0x00))\<lparr>fh_Size := 30, fh_State := 0xF8\<rparr>,
        ExtendedSize := 30,
        file_buf := replicate 16 0xAB @ [0, 0, 0x01, 0x00, 30, 0, 0, 0xF8]
                    @ [1, 2, 3, 0, 4, 5]\<rparr>"

text \<open>
  A raw section (type \<open>0x19\<close>) without payload, and the same section once rebuilt
  around two children of 3 and 2 bytes.
\<close>

definition example_section :: SectionNode where
  "example_section =
     \<lparr>sh_Size = 4, sh_Type = 0x19, TypeSpecific = None, sec_buf = [4, 0, 0, 0x19]\<rparr>"

definition example_section_rebuilt :: SectionNode where
  "example_section_rebuilt =
     example_section\<lparr>sh_Size := 10, sec_buf := [10, 0, 0, 0x19] @ [1, 2, 3, 0, 4, 5]\<rparr>"

text \<open>
  The same collaborators over buffers whose backing arrays hold 8 more bytes of \<open>0x11\<close>
  between length and capacity.
\<close>

definition example_externals_spare :: externals where
  "example_externals_spare = example_externals\<lparr>spare := (\<lambda>b. replicate 8 0x11)\<rparr>"

text \<open>
  A file whose only section is a firmware volume image (type \<open>0x17\<close>) holding a nested
  volume of erase polarity \<open>0x00\<close> without files.
\<close>

definition example_nested_file :: file_tree where
  "example_nested_file =
     File (example_file 0x00)
       [Section \<lparr>sh_Size = 76, sh_Type = 0x17, TypeSpecific = None,
                  sec_buf = [76, 0, 0, 0x17] @ example_header 0x00 72\<rparr>
          [FwVolume (FV (example_volume 0x00 72) [])]]"

text \<open>
  The state bytes, at offset \<open>0x17\<close>, of the files of a volume after \<open>Visit\<close>.
\<close>

definition state_bytes :: "fv_tree \<Rightarrow> u8 list" where
  "state_bytes t = map (\<lambda>f. file_Buf f ! 0x17) (Files t)"

definition visited_state_bytes :: "externals \<Rightarrow> u8 \<Rightarrow> fv_tree \<Rightarrow> error + u8 list" where
  "visited_state_bytes ext polarity t =
     (case Visit_FV ext polarity t of
        Inl e \<Rightarrow> Inl e
      | Inr (polarity', t') \<Rightarrow> Inr (state_bytes t'))"

section \<open>Properties of the region helpers\<close>

lemma unat_u16_bound: "unat (w :: u16) < 65536"
  using unsigned_less [of w, where 'a = nat] by simp

lemma unat_ucast_u16_u32: "unat (ucast (w :: u16) :: u32) = unat w"
  using unat_u16_bound [of w] by (simp add: unsigned_ucast_eq take_bit_nat_eq_self)

lemma unat_BaseOffset: "unat (BaseOffset r) = unat (Base r) * 4096"
proof -
  have "unat (Base r) * 4096 < 2 ^ 32"
    using unat_u16_bound [of "Base r"] by simp
  then show ?thesis
    unfolding BaseOffset_def
    by (simp add: push_bit_eq_mult unat_word_ariths unat_ucast_u16_u32)
qed

lemma unat_EndOffset: "unat (EndOffset r) = (unat (Limit r) + 1) * 4096"
proof -
  have "(unat (Limit r) + 1) * 4096 < 2 ^ 32"
    using unat_u16_bound [of "Limit r"] by simp
  then show ?thesis
    unfolding EndOffset_def
    by (simp add: push_bit_eq_mult unat_word_ariths unat_ucast_u16_u32)
qed

lemma regionTestcases_ok: "list_all region_row_ok regionTestcases"
  by (simp add: regionTestcases_def region_row_ok_def Valid_def BaseOffset_def EndOffset_def)

text \<open>
  C9. A region is valid exactly when its limit is at least its base and is not zero; its
  base offset is the base shifted left by 12 bits and its end offset the limit plus one
  shifted left by 12 bits, neither of which wraps in 32 bits. The five rows of the test
  table hold: \<open>Region{0,0}\<close> and \<open>Region{1,0}\<close> are invalid, \<open>Region{1,1}\<close>,
  \<open>Region{100,200}\<close> and \<open>Region{4,0xFFFF}\<close> are valid, with the offsets the table lists.
\<close>

theorem Region_valid_and_offsets:
  "Valid r = (Limit r \<ge> Base r \<and> Limit r \<noteq> 0)
   \<and> unat (BaseOffset r) = unat (Base r) * 2 ^ 12
   \<and> unat (EndOffset r) = (unat (Limit r) + 1) * 2 ^ 12
   \<and> list_all region_row_ok regionTestcases"
  by (simp add: Valid_def unat_BaseOffset unat_EndOffset regionTestcases_ok)

section \<open>Properties of the volume parser\<close>

lemma le_nat_replicate_0 [simp]: "le_nat (replicate n 0) = 0"
  by (induction n) simp_all

text \<open>
  C5. \<open>FindFirmwareVolumeOffset\<close> on a slice of 33 zero bytes whose capacity is its
  length: the signature is nowhere, and the scan does not return \<open>-1\<close>; the slice
  expression at offset 32 reaches past the end and the run-time system panics.
\<close>

theorem FindFirmwareVolumeOffset_short_tail:
  "FindFirmwareVolumeOffset \<lparr>content = replicate 33 0, beyond = []\<rparr> = Inl Panic"
  by (simp add: FindFirmwareVolumeOffset_def len_def cap_def slice_lo_hi_def)

text \<open>
  C6. \<open>NewFirmwareVolume\<close> on a slice of 64 bytes, all zero but for a declared length of
  65, with capacity 64: no error is returned to the caller; the final slice expression
  is reached and panics.
\<close>

theorem NewFirmwareVolume_length_past_end:
  "NewFirmwareVolume uuid_String
     \<lparr>content = replicate 32 0 @ [65] @ replicate 31 0, beyond = []\<rparr> = Inl Panic"
  by (simp add: NewFirmwareVolume_def FirmwareVolumeMinSize_def
      FirmwareVolumeFixedHeaderSize_def FirmwareVolumeExtHeaderMinSize_def len_def cap_def
      binary_Read_def read_FixedHeader_def read_Block_def zero_FirmwareVolume_def
      le_word_def slice_lo_hi_def Let_def)

text \<open>
  C7. \<open>NewFirmwareVolume\<close> on a slice of 64 bytes, all zero but for an extended header
  offset of 60: the declared length is 0, below 20, and yet the extended header is read;
  four bytes are left at offset 60 and parsing fails on that account.
\<close>

theorem NewFirmwareVolume_ext_header_small_length:
  "NewFirmwareVolume uuid_String
     \<lparr>content = replicate 52 0 @ [60] @ replicate 11 0, beyond = []\<rparr>
   = Inl (ExtHeaderUnparsable ErrUnexpectedEOF)"
  by (simp add: NewFirmwareVolume_def FirmwareVolumeMinSize_def
      FirmwareVolumeFixedHeaderSize_def FirmwareVolumeExtHeaderMinSize_def len_def cap_def
      binary_Read_def read_FixedHeader_def read_Block_def zero_FirmwareVolume_def
      le_word_def slice_lo_hi_def slice_from_def Let_def)

section \<open>Alignment\<close>

lemma Align_ge: "0 < base \<Longrightarrow> val \<le> Align val base"
proof -
  assume b: "0 < base"
  have "val + base - 1 = (val + base - 1) div base * base + (val + base - 1) mod base"
    by simp
  moreover have "(val + base - 1) mod base \<le> base - 1"
    using b by (simp add: Suc_leI less_Suc_eq_le [symmetric])
  ultimately have "val + base - 1 \<le> Align val base + (base - 1)"
    unfolding Align_def by linarith
  then show ?thesis using b by linarith
qed

lemma Align_mod [simp]: "Align val base mod base = 0"
  by (simp add: Align_def)

lemma Align_less: "0 < base \<Longrightarrow> Align val base < val + base"
proof -
  assume b: "0 < base"
  have "(val + base - 1) div base * base \<le> val + base - 1"
    by simp
  then show ?thesis using b unfolding Align_def by linarith
qed

lemma Align_id: "0 < base \<Longrightarrow> x mod base = 0 \<Longrightarrow> Align x base = x"
proof -
  assume b: "0 < base" and m: "x mod base = 0"
  then obtain k where k: "x = k * base" by (auto simp: mod_eq_0_iff_dvd mult.commute)
  have "(x + base - 1) div base = k"
    using b k by (intro div_nat_eqI) (simp_all add: mult.commute)
  then show ?thesis unfolding Align_def using k by simp
qed

lemma Align_next: "0 < base \<Longrightarrow> x mod base = 0 \<Longrightarrow> Align (x + 1) base = x + base"
proof -
  assume b: "0 < base" and m: "x mod base = 0"
  then obtain k where k: "x = k * base" by (auto simp: mod_eq_0_iff_dvd mult.commute)
  have "x + 1 + base - 1 = (k + 1) * base" using k by simp
  then show ?thesis unfolding Align_def using k b by simp
qed

lemma Align8_ge: "n \<le> Align8 n" by (simp add: Align8_def Align_ge)
lemma Align8_mod: "Align8 n mod 8 = 0" by (simp add: Align8_def)
lemma Align8_less: "Align8 n < n + 8" by (simp add: Align8_def Align_less)

lemma GetAlignment_cases:
  "GetAlignment a \<in> {1, 16, 128, 512, 1024, 4096, 32768, 65536}"
proof -
  have "a AND 0x38 \<le> 0x38" by (rule word_and_le1)
  then have "unat (a AND 0x38) \<le> 56" by (simp add: word_le_nat_alt)
  then have "unat (drop_bit 3 (a AND 0x38)) \<le> 7"
    by (simp add: drop_bit_eq_div unat_div)
  then have "unat (drop_bit 3 (a AND 0x38)) \<in> {0, 1, 2, 3, 4, 5, 6, 7}"
    by auto
  then show ?thesis
    unfolding GetAlignment_def fileAlignConst_def by auto
qed

section \<open>Concatenation of sections\<close>
















section \<open>Preconditions of the volume case\<close>

lemma ApplyChildren_FV_length:
  "ApplyChildren_FV ext p fs = Inr (p', fs') \<Longrightarrow> length fs' = length fs"
  by (induction fs arbitrary: p p' fs') (auto split: sum.splits prod.splits)

lemma assemble_FirmwareVolume_precondition:
  assumes "files \<noteq> []"
    and "unat (Length v) < length (buf v) \<or> unat (DataOffset v) \<noteq> length (buf v)"
  shows "assemble_FirmwareVolume ext polarity v files =
           Inl (if unat (Length v) < length (buf v)
                then BufferBiggerThanLength (unat (Length v)) (length (buf v))
                else HeaderSizeMismatch (length (buf v)) (unat (DataOffset v)))"
  using assms by (auto simp: assemble_FirmwareVolume_def placement_def Let_def)

text \<open>
  C10. A volume with at least one file whose buffer is longer than its declared length,
  or whose buffer length differs from its data offset, is not assembled: the case of
  the visitor for volumes returns the error of the failed check, whatever the files
  are, and so the visit of the volume returns an error.
\<close>

theorem FirmwareVolume_preconditions:
  assumes "files \<noteq> []"
    and "unat (Length v) < length (buf v) \<or> unat (DataOffset v) \<noteq> length (buf v)"
  shows "assemble_FirmwareVolume ext polarity v (map file_Node files) =
           Inl (if unat (Length v) < length (buf v)
                then BufferBiggerThanLength (unat (Length v)) (length (buf v))
                else HeaderSizeMismatch (length (buf v)) (unat (DataOffset v)))
         \<and> (\<exists>e. Visit_FV ext polarity0 (FV v files) = Inl e)"
proof
  show "assemble_FirmwareVolume ext polarity v (map file_Node files) =
           Inl (if unat (Length v) < length (buf v)
                then BufferBiggerThanLength (unat (Length v)) (length (buf v))
                else HeaderSizeMismatch (length (buf v)) (unat (DataOffset v)))"
    using assms by (intro assemble_FirmwareVolume_precondition) simp_all
next
  show "\<exists>e. Visit_FV ext polarity0 (FV v files) = Inl e"
  proof (cases "ApplyChildren_FV ext (GetErasePolarity v) files")
    case (Inl e)
    then show ?thesis by simp
  next
    case (Inr r)
    obtain p' fs' where r: "r = (p', fs')" by (cases r)
    have "length fs' = length files"
      using Inr r by (auto dest: ApplyChildren_FV_length)
    then have ne: "map file_Node fs' \<noteq> []" using assms(1) by auto
    show ?thesis
      using Inr r assemble_FirmwareVolume_precondition [OF ne assms(2), of ext p']
      by simp
  qed
qed

section \<open>The header checksum\<close>

lemma sum16_append:
  "even (length xs) \<Longrightarrow> sum16 (xs @ ys) = sum16 xs + sum16 ys"
  by (induction xs rule: sum16.induct) (simp_all add: add.assoc)

lemma length_le_bytes [simp]: "length (le_bytes n v) = n"
  by (induction n arbitrary: v) simp_all

lemma le_nat_le_bytes: "le_nat (le_bytes n v) = v mod 256 ^ n"
proof (induction n arbitrary: v)
  case 0
  then show ?case by simp
next
  case (Suc n)
  have "unat (word_of_nat (v mod 256) :: u8) = v mod 256"
    by (simp add: unat_of_nat)
  then show ?case
    using Suc [of "v div 256"]
    by (simp add: mod_mult2_eq)
qed

lemma le_word_le_bytes_u16: "(le_word (le_bytes 2 (unat w)) :: u16) = w"
proof -
  have "unat w < 65536" by (rule unat_u16_bound)
  then have "unat w mod 256 ^ 2 = unat w" by simp
  then show ?thesis
    by (simp only: le_word_def le_nat_le_bytes) simp
qed

lemma sum16_field:
  assumes "length xy = 2" and "52 \<le> n" and "n \<le> length b" and "even n"
  shows "sum16 (take n (take 50 b @ xy @ drop 52 b))
           = sum16 (take 50 b) + le_word xy + sum16 (take (n - 52) (drop 52 b))"
proof -
  obtain x y where xy: "xy = [x, y]"
    using assms(1) by (cases xy; cases "tl xy") auto
  have l50: "length (take 50 b) = 50" using assms by simp
  have n50: "n - 50 = Suc (Suc (n - 52))" using assms(2) by simp
  have "take n (take 50 b @ xy @ drop 52 b) = take 50 b @ xy @ take (n - 52) (drop 52 b)"
    using l50 assms(2) by (simp add: xy n50 min_def)
  moreover have "sum16 (take 50 b @ xy @ take (n - 52) (drop 52 b))
        = sum16 (take 50 b) + sum16 (xy @ take (n - 52) (drop 52 b))"
    using l50 by (intro sum16_append) simp
  moreover have "sum16 (xy @ take (n - 52) (drop 52 b)) = le_word xy + sum16 (take (n - 52) (drop 52 b))"
    by (simp add: xy)
  ultimately show ?thesis by (simp add: add.assoc)
qed

lemma patch_header_checksum:
  assumes ok: "patch_header ext v b = Inr v'" and hl: "52 \<le> unat (HeaderLen v)"
    and inside: "unat (HeaderLen v) \<le> length (buf v')"
  shows "Checksum16 (take (unat (HeaderLen v')) (buf v')) = Inr 0"
proof -
  from ok obtain b1 blk blks b2 b3 s b4 where
    b1: "PutUint64 b 32 (Length v) = Inr b1"
    and blocks: "Blocks v = blk # blks"
    and b2: "PutUint32 b1 56 (Count blk) = Inr b2"
    and b3: "PutUint16 b2 50 0 = Inr b3"
    and s: "Checksum16 (take (unat (HeaderLen v)) (b3 @ spare ext b3)) = Inr s"
    and b4: "PutUint16 b3 50 (0 - s) = Inr b4"
    and v': "v' = v\<lparr>buf := b4\<rparr>"
    by (auto simp: patch_header_def Let_def split: sum.splits list.splits if_splits)
  define n where "n = unat (HeaderLen v)"
  have b3': "b3 = take 50 b2 @ le_bytes 2 0 @ drop 52 b2" and l2: "52 \<le> length b2"
    using b3 by (auto simp: PutUint16_def PutUint_def split: if_splits)
  have l3: "length b3 = length b2" using l2 by (simp add: b3')
  have t3: "take 50 b3 = take 50 b2" and d3: "drop 52 b3 = drop 52 b2"
    using l2 by (simp_all add: b3')
  have b4': "b4 = take 50 b2 @ le_bytes 2 (unat (0 - s)) @ drop 52 b2"
    using b4 by (auto simp: PutUint16_def PutUint_def t3 d3 split: if_splits)
  have l4: "length b4 = length b2" using l2 by (simp add: b4')
  have nle: "n \<le> length b2" using inside l4 by (simp add: n_def v')
  then have within: "take n (b3 @ spare ext b3) = take n b3" by (simp add: l3)
  have ev: "even n" and s_eq: "s = sum16 (take n b3)"
    using s nle l3 by (auto simp: Checksum16_def n_def within min_def split: if_splits)
  have n52: "52 \<le> n" using hl by (simp add: n_def)
  have s3: "sum16 (take n b3) = sum16 (take 50 b2) + le_word (le_bytes 2 0)
              + sum16 (take (n - 52) (drop 52 b2))"
    unfolding b3' by (rule sum16_field) (simp_all add: n52 nle ev)
  have s4: "sum16 (take n b4) = sum16 (take 50 b2) + le_word (le_bytes 2 (unat (0 - s)))
              + sum16 (take (n - 52) (drop 52 b2))"
    unfolding b4' by (rule sum16_field) (simp_all add: n52 nle ev)
  have z: "(le_word (le_bytes 2 0) :: u16) = 0"
    using le_word_le_bytes_u16 [of 0] by simp
  have "sum16 (take n b4) = s + (0 - s)"
    using s3 s4 z by (simp add: s_eq le_word_le_bytes_u16)
  then have "sum16 (take n b4) = 0" by simp
  moreover have "length (take n b4) = n" using nle l2 by (simp add: b4')
  ultimately show ?thesis
    using ev by (simp add: Checksum16_def v' n_def [symmetric])
qed

lemma resize_HeaderLen: "resize v n = Inr v' \<Longrightarrow> HeaderLen v' = HeaderLen v"
  by (auto simp: resize_def Let_def split: if_splits list.splits)

lemma assemble_FirmwareVolume_checksum:
  assumes ok: "assemble_FirmwareVolume ext polarity v files = Inr v'"
    and ne: "files \<noteq> []" and hl: "52 \<le> unat (HeaderLen v)"
    and inside: "unat (HeaderLen v) \<le> length (buf v')"
  shows "Checksum16 (take (unat (HeaderLen v')) (buf v')) = Inr 0"
proof -
  from ok ne have "\<exists>(b :: u8 list) v1 b1.
      resize v (length b) = Inr v1 \<and> patch_header ext v1 b1 = Inr v'"
    by (simp add: assemble_FirmwareVolume_def Let_def split: if_splits sum.splits prod.splits)
       blast+
  then obtain b :: "u8 list" and v1 b1 where
    r: "resize v (length b) = Inr v1" and p: "patch_header ext v1 b1 = Inr v'"
    by blast
  have h: "HeaderLen v1 = HeaderLen v" using resize_HeaderLen [OF r] .
  show ?thesis
    using p hl inside unfolding h [symmetric] by (rule patch_header_checksum)
qed

text \<open>
  C2 (amended). When the visit of a volume with at least one file succeeds and the header
  length of the volume is at least 52, so that the checksum field at offset 50 lies
  inside the header, and no more than the length of the rebuilt buffer, the 16-bit
  little-endian sum over \<open>buf[0..HeaderLen]\<close> of the rebuilt buffer is zero.
\<close>

theorem FirmwareVolume_checksum_zero_sum:
  assumes "Visit_FV ext polarity (FV v files) = Inr (polarity', FV v' files')"
    and "files \<noteq> []" and "52 \<le> unat (HeaderLen v)"
    and "unat (HeaderLen v) \<le> length (buf v')"
  shows "Checksum16 (take (unat (HeaderLen v')) (buf v')) = Inr 0"
proof -
  from assms(1) obtain p where
    ch: "ApplyChildren_FV ext (GetErasePolarity v) files = Inr (p, files')"
    and as: "assemble_FirmwareVolume ext p v (map file_Node files') = Inr v'"
    by (auto simp: Let_def split: sum.splits prod.splits)
  have "length files' = length files" using ch by (rule ApplyChildren_FV_length)
  then have "map file_Node files' \<noteq> []" using assms(2) by auto
  then show ?thesis by (rule assemble_FirmwareVolume_checksum [OF as _ assms(3) assms(4)])
qed

section \<open>Pad files\<close>

lemma InsertFile_result:
  "InsertFile polarity b alignedOffset fBuf = Inr b' \<Longrightarrow>
     length b \<le> alignedOffset \<and> b' = b @ replicate (alignedOffset - length b) polarity @ fBuf"
  by (auto simp: InsertFile_def Erase_def make_bytes_def split: if_splits)

lemma IsLarge_set: "IsLarge (a OR 0x01)"
proof -
  have "bit (a OR 0x01) 0" by (simp add: bit_or_iff)
  then have "bit ((a OR 0x01) AND 0x01) 0" by (simp add: bit_and_iff)
  then have "(a OR 0x01) AND 0x01 \<noteq> 0" by (metis bit_0_eq bot_apply bot_bool_def)
  then show ?thesis by (simp add: IsLarge_def)
qed

lemma IsLarge_clear: "\<not> IsLarge (a AND NOT 0x01)"
proof -
  have "(a AND NOT 0x01) AND 0x01 = a AND (NOT 0x01 AND 0x01)"
    by (simp add: and.assoc)
  then show ?thesis by (simp add: IsLarge_def)
qed

lemma HeaderLen_of_cases: "HeaderLen_of f = 24 \<or> HeaderLen_of f = 32"
  by (simp add: HeaderLen_of_def FileHeaderMinLength_def FileHeaderExtMinLength_def)

lemma CreatePadFile_length:
  assumes "CreatePadFile ext polarity sz = Inr pfile"
  shows "FileHeaderMinLength \<le> sz \<and> length (file_buf pfile) = sz"
proof -
  have sz: "24 \<le> sz"
    using assms by (auto simp: CreatePadFile_def FileHeaderMinLength_def split: if_splits)
  show ?thesis
  proof (cases "sz \<ge> 2 ^ 24")
    case True
    then show ?thesis
      using assms sz IsLarge_set [of 0]
      by (auto simp: CreatePadFile_def SetSize_def ChecksumAndAssemble_def header_bytes_def
          HeaderLen_of_def FileHeaderMinLength_def FileHeaderExtMinLength_def Let_def
          Erase_def make_bytes_def)
  next
    case False
    then show ?thesis
      using assms sz IsLarge_clear [of 0]
      by (auto simp: CreatePadFile_def SetSize_def ChecksumAndAssemble_def header_bytes_def
          HeaderLen_of_def FileHeaderMinLength_def FileHeaderExtMinLength_def Let_def
          Erase_def make_bytes_def)
  qed
qed

lemma GetAlignment_dvd:
  "GetAlignment a \<noteq> 1 \<Longrightarrow> 16 dvd GetAlignment a \<and> 0 < GetAlignment a"
  using GetAlignment_cases [of a] by auto

lemma Align_dvd: "d dvd base \<Longrightarrow> d dvd Align val base"
  by (simp add: Align_def)

lemma new_offset_gap:
  assumes a16: "16 dvd a" and a0: "0 < a" and hl: "hl = 24 \<or> hl = 32" and al: "8 dvd al"
  shows "al \<le> new_offset al hl a
       \<and> (new_offset al hl a - al = 0 \<or> 24 \<le> new_offset al hl a - al)
       \<and> (new_offset al hl a + hl) mod a = 0"
proof -
  define fdo where "fdo = Align (al + hl) a"
  define g0 where "g0 = fdo - hl - al"
  have ge: "al + hl \<le> fdo" unfolding fdo_def using a0 by (rule Align_ge)
  have m: "fdo mod a = 0" by (simp add: fdo_def)
  have "16 dvd fdo" unfolding fdo_def using a16 by (rule Align_dvd)
  then have f8: "8 dvd fdo" by presburger
  have h8: "8 dvd hl" using hl by auto
  have g8: "8 dvd g0"
    unfolding g0_def using f8 h8 al ge by presburger
  have a16': "16 \<le> a" using a16 a0 by auto
  have nxt: "Align (fdo + 1) a = fdo + a" using a0 m by (rule Align_next)
  have no: "new_offset al hl a
              = (if 8 \<le> g0 \<and> g0 < 24 then fdo + a - hl else fdo - hl)"
    using nxt unfolding g0_def fdo_def new_offset_def Let_def FileHeaderMinLength_def
    by simp
  show ?thesis
  proof (cases "8 \<le> g0 \<and> g0 < 24")
    case True
    then have "new_offset al hl a = fdo + a - hl" by (simp add: no)
    moreover have "(fdo + a) mod a = 0" using m by simp
    ultimately show ?thesis
      using ge a16' True hl by (auto simp: g0_def)
  next
    case False
    then have eq: "new_offset al hl a = fdo - hl" by (auto simp: no)
    have "g0 = 0 \<or> 24 \<le> g0"
      using False g8 by presburger
    then show ?thesis
      using ge m hl by (auto simp: eq g0_def)
  qed
qed

lemma pad_bytes_0: "pad_bytes ext polarity 0 = []"
  by (simp add: pad_bytes_def CreatePadFile_def FileHeaderMinLength_def)

lemma new_offset_closed:
  assumes "0 < a"
  shows "new_offset al hl a =
     (if 8 \<le> Align (al + hl) a - hl - al \<and> Align (al + hl) a - hl - al < FileHeaderMinLength
      then Align (al + hl) a + a - hl else Align (al + hl) a - hl)"
proof -
  have "Align (Align (al + hl) a + 1) a = Align (al + hl) a + a"
    using assms by (intro Align_next) simp_all
  then show ?thesis by (simp add: new_offset_def Let_def)
qed

lemma GetAlignment_pos: "0 < GetAlignment a"
  using GetAlignment_cases [of a] by auto

lemma spec_file_start_eq:
  "spec_file_start off file =
     (if GetAlignment (fh_Attributes (Header file)) = 1 then Align8 off
      else new_offset (Align8 off) (HeaderLen_of file)
             (GetAlignment (fh_Attributes (Header file))))"
proof -
  have "0 < GetAlignment (fh_Attributes (Header file))" by (rule GetAlignment_pos)
  then have "(GetAlignment (fh_Attributes (Header file)) > 1)
               = (GetAlignment (fh_Attributes (Header file)) \<noteq> 1)"
    by auto
  then show ?thesis
    by (simp add: spec_file_start_def new_offset_def Let_def)
qed

lemma new_offset_upper:
  assumes "0 < a"
  shows "new_offset al hl a < al + 2 * a"
proof -
  have "Align (al + hl) a < al + hl + a" using assms by (rule Align_less)
  then show ?thesis
    unfolding new_offset_closed [OF assms] using assms by auto
qed

lemma spec_file_start_gap:
  "Align8 off \<le> spec_file_start off file
   \<and> (spec_file_start off file - Align8 off = 0
       \<or> 24 \<le> spec_file_start off file - Align8 off)
   \<and> spec_file_start off file - Align8 off < 2 ^ 24"
proof (cases "GetAlignment (fh_Attributes (Header file)) = 1")
  case True
  then show ?thesis by (simp add: spec_file_start_eq)
next
  case False
  define a where "a = GetAlignment (fh_Attributes (Header file))"
  have a16: "16 dvd a" and a0: "0 < a"
    using GetAlignment_dvd [OF False] by (simp_all add: a_def)
  have al8: "8 dvd Align8 off"
    using Align8_mod [of off] by (simp add: dvd_eq_mod_eq_0)
  have up: "a \<le> 65536"
    using GetAlignment_cases [of "fh_Attributes (Header file)"] by (auto simp: a_def)
  have "new_offset (Align8 off) (HeaderLen_of file) a < Align8 off + 2 * a"
    using a0 by (rule new_offset_upper)
  then have "new_offset (Align8 off) (HeaderLen_of file) a - Align8 off < 2 ^ 24"
    using up by simp
  then show ?thesis
    using new_offset_gap [OF a16 a0 HeaderLen_of_cases al8, of "file"] False
    by (simp add: spec_file_start_eq a_def)
qed

text \<open>One round of the loop appends the fill, the pad file and the file, and no more.\<close>

lemma place_file_exact:
  assumes ok: "place_file ext polarity b off file = Inr (b', off')" and len: "length b = off"
  shows "b' = b @ replicate (Align8 off - off) polarity
              @ pad_bytes ext polarity (spec_file_start off file - Align8 off)
              @ file_buf file"
    and "off' = spec_file_start off file + length (file_buf file)"
    and "length b' = off'"
    and "length (pad_bytes ext polarity (spec_file_start off file - Align8 off))
           = spec_file_start off file - Align8 off"
proof -
  define al where "al = Align8 off"
  define a where "a = GetAlignment (fh_Attributes (Header file))"
  define hl where "hl = HeaderLen_of file"
  define start where "start = spec_file_start off file"
  have start': "start = (if a = 1 then al else new_offset al hl a)"
    by (simp add: start_def spec_file_start_eq a_def al_def hl_def)
  have al_ge: "off \<le> al" by (simp add: al_def Align8_ge)
  have g: "al \<le> start" "start - al = 0 \<or> 24 \<le> start - al"
    using spec_file_start_gap [of off "file"] by (simp_all add: start_def al_def)
  have main: "length (pad_bytes ext polarity (start - al)) = start - al
        \<and> b' = b @ replicate (al - off) polarity
                  @ pad_bytes ext polarity (start - al) @ file_buf file
        \<and> off' = start + length (file_buf file)"
  proof (cases "start = al")
    case True
    then have "InsertFile polarity b al (file_buf file) = Inr b'"
      and "off' = al + length (file_buf file)"
      using ok len
      by (auto simp: place_file_def Let_def a_def al_def hl_def start'
          split: if_splits sum.splits)
    then show ?thesis
      using True len by (auto dest: InsertFile_result simp: pad_bytes_0)
  next
    case ne: False
    then have a1: "a \<noteq> 1" by (auto simp: start')
    from ok len a1 ne obtain pfile b1 where
      pf: "CreatePadFile ext polarity (start - al) = Inr pfile"
      and i1: "InsertFile polarity b al (file_buf pfile) = Inr b1"
      and i2: "InsertFile polarity b1 start (file_buf file) = Inr b'"
      and o: "off' = start + length (file_buf file)"
      by (auto simp: place_file_def Let_def a_def al_def hl_def start'
          split: if_splits sum.splits)
    have pl: "length (file_buf pfile) = start - al"
      using CreatePadFile_length [OF pf] by simp
    have b1: "b1 = b @ replicate (al - off) polarity @ file_buf pfile"
      using InsertFile_result [OF i1] len by simp
    have l1: "length b1 = start" using b1 pl al_ge g(1) len by simp
    have b': "b' = b1 @ file_buf file"
      using InsertFile_result [OF i2] l1 by simp
    have pb: "pad_bytes ext polarity (start - al) = file_buf pfile"
      by (simp add: pad_bytes_def pf)
    show ?thesis using b' b1 pb pl o by simp
  qed
  then show "b' = b @ replicate (Align8 off - off) polarity
              @ pad_bytes ext polarity (spec_file_start off file - Align8 off)
              @ file_buf file"
    and "off' = spec_file_start off file + length (file_buf file)"
    and "length (pad_bytes ext polarity (spec_file_start off file - Align8 off))
           = spec_file_start off file - Align8 off"
    by (simp_all add: start_def al_def)
  show "length b' = off'"
    using main al_ge g(1) len by simp
qed

text \<open>The pad file that fills a gap of at least 24 and less than 16 MiB.\<close>

lemma pad_bytes_fills_gap:
  assumes "gap = 0 \<or> 24 \<le> gap" and "gap < 2 ^ 24"
  shows "fills_gap ext polarity gap (pad_bytes ext polarity gap)"
proof (cases "gap = 0")
  case True
  then show ?thesis by (simp add: fills_gap_def pad_bytes_0)
next
  case False
  then have g: "24 \<le> gap" using assms(1) by simp
  have u: "unat (word_of_nat gap :: 24 word) = gap"
    using assms(2) by (simp add: unat_of_nat)
  have n: "\<not> IsLarge (0 AND NOT 0x01)" by (rule IsLarge_clear)
  define chk where "chk = le_bytes 2 (unat (integrity ext
      (replicate 16 polarity @ le_bytes 2 0 @ [0xF0, 0 AND NOT 0x01]
         @ le_bytes 3 gap @ [0x07 XOR polarity])
      (replicate (gap - 24) polarity)))"
  have lc: "length chk = 2" by (simp add: chk_def)
  have pb: "pad_bytes ext polarity gap
         = replicate 16 polarity @ chk @ [0xF0, 0 AND NOT 0x01]
           @ le_bytes 3 gap @ [0x07 XOR polarity] @ replicate (gap - 24) polarity"
    using g assms(2) n
    by (simp add: pad_bytes_def CreatePadFile_def SetSize_def ChecksumAndAssemble_def
        header_bytes_def HeaderLen_of_def FileHeaderMinLength_def Let_def Erase_def
        make_bytes_def u chk_def)
  obtain c0 c1 where chk: "chk = [c0, c1]"
    using lc by (cases chk; cases "tl chk") auto
  have sz: "le_nat (le_bytes 3 gap) = gap"
    using assms(2) by (simp add: le_nat_le_bytes)
  obtain s0 s1 s2 where l3: "le_bytes 3 gap = [s0, s1, s2]"
    by (simp add: numeral_3_eq_3)
  have expl: "pad_bytes ext polarity gap
         = replicate 16 polarity
           @ [c0, c1, 0xF0, 0 AND NOT 0x01, s0, s1, s2, 0x07 XOR polarity]
           @ replicate (gap - 24) polarity"
    by (simp add: pb chk l3)
  have len: "length (pad_bytes ext polarity gap) = gap"
    using g by (simp add: expl)
  have ty: "pad_bytes ext polarity gap ! 0x12 = 0xF0"
    by (simp add: expl nth_append)
  have st: "pad_bytes ext polarity gap ! 0x17 = 0x07 XOR polarity"
    by (simp add: expl nth_append)
  have size: "le_nat (take 3 (drop 0x14 (pad_bytes ext polarity gap))) = gap"
    using sz by (simp add: expl l3)
  have body: "drop 24 (pad_bytes ext polarity gap) = replicate (gap - 24) polarity"
    by (simp add: expl)
  show ?thesis
    using False len ty st size body
    by (simp add: fills_gap_def FileHeaderMinLength_def)
qed

lemma place_file_prefix:
  "place_file ext polarity b off file = Inr (b', off') \<Longrightarrow> \<exists>rest. b' = b @ rest"
  by (auto simp: place_file_def Let_def split: if_splits sum.splits dest!: InsertFile_result)

lemma place_files_prefix:
  "place_files ext polarity b off fs = Inr (b', off') \<Longrightarrow> \<exists>rest. b' = b @ rest"
proof (induction fs arbitrary: b off)
  case Nil
  then show ?case by simp
next
  case (Cons f fs)
  from Cons.prems obtain b1 off1 where
    s: "place_file ext polarity b off f = Inr (b1, off1)"
    and r: "place_files ext polarity b1 off1 fs = Inr (b', off')"
    by (auto split: sum.splits)
  from place_file_prefix [OF s] obtain r1 where "b1 = b @ r1" ..
  moreover from Cons.IH [OF r] obtain r2 where "b' = b1 @ r2" ..
  ultimately show ?case by simp
qed


lemma place_files_split:
  assumes "place_files ext polarity b off (pre @ rest) = Inr (bF, offF)"
    and "length b = off"
  shows "\<exists>b1. place_files ext polarity b off pre = Inr (b1, spec_files_end off pre)
             \<and> length b1 = spec_files_end off pre
             \<and> place_files ext polarity b1 (spec_files_end off pre) rest = Inr (bF, offF)"
  using assms
proof (induction pre arbitrary: b off)
  case Nil
  then show ?case by simp
next
  case (Cons p ps)
  from Cons.prems(1) obtain b1 off1 where
    s: "place_file ext polarity b off p = Inr (b1, off1)"
    and r: "place_files ext polarity b1 off1 (ps @ rest) = Inr (bF, offF)"
    by (auto split: sum.splits)
  have o: "off1 = spec_file_start off p + length (file_buf p)" and l: "length b1 = off1"
    using place_file_exact [OF s Cons.prems(2)] by simp_all
  from Cons.IH [OF r l] show ?case
    using s o by simp
qed

lemma segments5:
  assumes "D = A @ F @ P @ C @ R"
    and "length A = e" and "length F = f" and "length P = g"
  shows "take e D = A" and "take f (drop e D) = F" and "take g (drop (e + f) D) = P"
    and "take (length C) (drop (e + f + g) D) = C" and "e + f + g + length C \<le> length D"
  using assms by simp_all

lemma place_files_file_placed:
  assumes all: "place_files ext polarity hdr (length hdr) (pre @ file # post) = Inr (bF, offF)"
  shows "file_placed ext polarity hdr pre file post bF"
proof -
  define e where "e = spec_files_end (length hdr) pre"
  define al where "al = Align8 e"
  define start where "start = spec_file_start e file"
  define gap where "gap = start - al"
  define F where "F = replicate (al - e) polarity"
  define P where "P = pad_bytes ext polarity gap"
  from place_files_split [OF all refl] obtain b1 where
    pre: "place_files ext polarity hdr (length hdr) pre = Inr (b1, e)"
    and l1: "length b1 = e"
    and rest: "place_files ext polarity b1 e (file # post) = Inr (bF, offF)"
    by (auto simp: e_def)
  from rest obtain b2 off2 where
    s: "place_file ext polarity b1 e file = Inr (b2, off2)"
    and r: "place_files ext polarity b2 off2 post = Inr (bF, offF)"
    by (auto split: sum.splits)
  have b2: "b2 = b1 @ F @ P @ file_buf file"
    and lP: "length P = gap"
    using place_file_exact [OF s l1]
    by (simp_all add: F_def P_def gap_def start_def al_def)
  from place_files_prefix [OF r] obtain R where bF: "bF = b2 @ R" ..
  have dec: "bF = b1 @ F @ P @ file_buf file @ R" by (simp add: bF b2)
  have ge: "e \<le> al" and lt: "al - e < 8" and m: "al mod 8 = 0"
    using Align8_ge [of e] Align8_less [of e] Align8_mod [of e] by (simp_all add: al_def)
  have lF: "length F = al - e" by (simp add: F_def)
  have g: "al \<le> start" "gap = 0 \<or> 24 \<le> gap" "gap < 2 ^ 24"
    using spec_file_start_gap [of e "file"] by (simp_all add: start_def al_def gap_def)
  have ef: "e + (al - e) = al" using ge by simp
  have efg: "e + (al - e) + gap = start" using ge g(1) by (simp add: gap_def)
  have fill: "take (al - e) (drop e bF) = F"
    using segments5(2) [OF dec l1 lF lP] .
  have pad: "take gap (drop al bF) = P"
    using segments5(3) [OF dec l1 lF lP] by (simp only: ef)
  have body: "take (length (file_buf file)) (drop start bF) = file_buf file"
    using segments5(4) [OF dec l1 lF lP] by (simp only: efg)
  have fits: "start + length (file_buf file) \<le> length bF"
    using segments5(5) [OF dec l1 lF lP] by (simp only: efg)
  have front: "take e bF = b1"
    using segments5(1) [OF dec l1 lF lP] .
  have fg: "fills_gap ext polarity gap (take gap (drop al bF))"
    unfolding pad P_def using g(2) g(3) by (rule pad_bytes_fills_gap)
  have last_file: "case post of
                     [] \<Rightarrow> length bF = start + length (file_buf file)
                   | _ # _ \<Rightarrow> True"
  proof (cases post)
    case Nil
    then have "bF = b2" using r by simp
    then show ?thesis using Nil b2 l1 lF lP ge g(1) by (simp add: gap_def)
  next
    case (Cons p ps)
    then show ?thesis by simp
  qed
  have prev: "case pre of
                [] \<Rightarrow> take e bF = hdr
              | _ # _ \<Rightarrow> length (file_buf (last pre)) \<le> e
                  \<and> take (length (file_buf (last pre)))
                       (drop (e - length (file_buf (last pre))) bF) = file_buf (last pre)"
  proof (cases pre rule: rev_cases)
    case Nil
    then have "b1 = hdr" using pre by simp
    then show ?thesis using Nil front by simp
  next
    case (snoc ps l)
    from pre have "place_files ext polarity hdr (length hdr) (ps @ [l]) = Inr (b1, e)"
      by (simp add: snoc)
    from place_files_split [OF this refl] obtain b0 where
      l0: "length b0 = spec_files_end (length hdr) ps"
      and one: "place_files ext polarity b0 (spec_files_end (length hdr) ps) [l] = Inr (b1, e)"
      by auto
    from one have "place_file ext polarity b0 (spec_files_end (length hdr) ps) l = Inr (b1, e)"
      by (auto split: sum.splits)
    from place_file_exact(1) [OF this l0] obtain X where b1: "b1 = X @ file_buf l"
      by (metis append.assoc)
    have le: "length (file_buf l) \<le> e" using l1 by (simp add: b1)
    have "drop (e - length (file_buf l)) b1 = file_buf l" using l1 by (simp add: b1)
    then have "take (length (file_buf l)) (drop (e - length (file_buf l)) (take e bF))
                 = file_buf l"
      by (simp add: front)
    then have "take (length (file_buf l)) (drop (e - length (file_buf l)) bF) = file_buf l"
      using le by (simp add: drop_take min_def)
    then show ?thesis using le snoc by (cases ps) (simp_all split: list.splits)
  qed
  show ?thesis
    unfolding file_placed_def Let_def e_def [symmetric] al_def [symmetric]
      start_def [symmetric] gap_def [symmetric]
    using prev ge lt m fill g(1) g(2) fg body fits last_file
    by (simp add: F_def FileHeaderMinLength_def)
qed

lemma placement_place_files:
  assumes "placement ext polarity v files = Inr (bF, offF)"
  shows "place_files ext polarity (buf v) (length (buf v)) files = Inr (bF, offF)"
  using assms by (auto simp: placement_def Let_def split: if_splits)

text \<open>The three fields patched in the header leave the rest of the buffer as it was.\<close>

lemma PutUint_outside:
  assumes "PutUint n b off x = Inr b'"
    and "off = 32 \<and> n = 8 \<or> off = 50 \<and> n = 2 \<or> off = 56 \<and> n = 4"
  shows "length b' = length b \<and> outside_header_fields b' = outside_header_fields b"
proof -
  have l: "off + n \<le> length b" and b': "b' = take off b @ le_bytes n x @ drop (off + n) b"
    using assms(1) by (auto simp: PutUint_def split: if_splits)
  from assms(2) consider "off = 32" "n = 8" | "off = 50" "n = 2" | "off = 56" "n = 4"
    by auto
  then show ?thesis
  proof cases
    case 1
    then show ?thesis
      using l unfolding b' outside_header_fields_def by (simp add: min_def drop_take)
  next
    case 2
    then show ?thesis
      using l unfolding b' outside_header_fields_def by (simp add: min_def drop_take)
  next
    case 3
    then show ?thesis
      using l unfolding b' outside_header_fields_def by (simp add: min_def drop_take)
  qed
qed

lemma patch_header_outside:
  assumes "patch_header ext v b = Inr v'"
  shows "length (buf v') = length b"
    and "outside_header_fields (buf v') = outside_header_fields b"
    and "Length v' = Length v"
proof -
  from assms obtain b1 blk blks b2 b3 s b4 where
    b1: "PutUint64 b 32 (Length v) = Inr b1"
    and blocks: "Blocks v = blk # blks"
    and b2: "PutUint32 b1 56 (Count blk) = Inr b2"
    and b3: "PutUint16 b2 50 0 = Inr b3"
    and s: "Checksum16 (take (unat (HeaderLen v)) (b3 @ spare ext b3)) = Inr s"
    and b4: "PutUint16 b3 50 (0 - s) = Inr b4"
    and v': "v' = v\<lparr>buf := b4\<rparr>"
    by (auto simp: patch_header_def Let_def split: sum.splits list.splits if_splits)
  note o1 = PutUint_outside [OF b1 [unfolded PutUint64_def]]
    and o2 = PutUint_outside [OF b2 [unfolded PutUint32_def]]
    and o3 = PutUint_outside [OF b3 [unfolded PutUint16_def]]
    and o4 = PutUint_outside [OF b4 [unfolded PutUint16_def]]
  show "length (buf v') = length b"
    using o1 o2 o3 o4 by (simp add: v')
  show "outside_header_fields (buf v') = outside_header_fields b"
    using o1 o2 o3 o4 by (simp add: v')
  show "Length v' = Length v" by (simp add: v')
qed

lemma assemble_FirmwareVolume_emitted:
  assumes ok: "assemble_FirmwareVolume ext polarity v files = Inr v'" and ne: "files \<noteq> []"
  shows "\<exists>bF offF. placement ext polarity v files = Inr (bF, offF)
                   \<and> emitted_from polarity v' bF"
proof -
  from ok ne obtain bF offF v1 where
    pl: "placement ext polarity v files = Inr (bF, offF)"
    and r: "resize v (length bF) = Inr v1"
    and p: "patch_header ext v1
              (if unat (Length v1) > length bF
               then bF @ Erase (make_bytes (unat (Length v1) - length bF)) polarity
               else bF) = Inr v'"
    by (auto simp: assemble_FirmwareVolume_def Let_def split: if_splits sum.splits)
  have full: "(if unat (Length v1) > length bF
               then bF @ Erase (make_bytes (unat (Length v1) - length bF)) polarity
               else bF)
              = bF @ replicate (unat (Length v1) - length bF) polarity"
    by (simp add: Erase_def make_bytes_def)
  have "emitted_from polarity v' bF"
    using patch_header_outside [OF p] unfolding full
    by (simp add: emitted_from_def Let_def)
  with pl show ?thesis by blast
qed

text \<open>
  C3. Let the volume case of the visitor rebuild a volume without error. Then the loop
  over the files has left a buffer that the rebuilt volume holds, filled with erase
  polarity up to its length, the three patched header fields apart; and for every file
  of the volume, whatever files come before (\<open>pre\<close>) and after (\<open>post\<close>) it, that buffer
  holds the file by the pad-file rule. The file before it, or the header when there is
  none, ends at the offset the spec computes; fewer than 8 bytes of erase polarity lead
  to the next multiple of 8; from there to the start of the file, which is one alignment
  boundary further when the tentative gap is in \<open>[8, FileHeaderMinLength)\<close>, the gap is
  empty or at least \<open>FileHeaderMinLength\<close>; a pad file of exactly the size of the gap
  fills it; the bytes of the file follow; and the buffer ends with the last file.
\<close>

theorem pad_file_invariant:
  assumes "assemble_FirmwareVolume ext polarity v (pre @ file # post) = Inr v'"
  shows "\<exists>bF offF. placement ext polarity v (pre @ file # post) = Inr (bF, offF)
                   \<and> file_placed ext polarity (buf v) pre file post bF
                   \<and> emitted_from polarity v' bF"
proof -
  from assemble_FirmwareVolume_emitted [OF assms] obtain bF offF where
    pl: "placement ext polarity v (pre @ file # post) = Inr (bF, offF)"
    and em: "emitted_from polarity v' bF"
    by auto
  have "file_placed ext polarity (buf v) pre file post bF"
    using pl by (intro place_files_file_placed placement_place_files)
  with pl em show ?thesis by blast
qed

section \<open>The state of a rebuilt file\<close>

text \<open>
  The state of a rebuilt file is \<open>0x07\<close> XORed with the process-wide polarity as the
  visit of the children of the file left it.
\<close>

lemma Visit_File_state:
  assumes "Visit_File ext polarity (File f sections) = Inr (polarity', File f' sections')"
  shows "fh_State (Header f') = 0x07 XOR polarity'"
  using assms
  by (auto simp: assemble_File_def ChecksumAndAssemble_def SetSize_def Let_def
      split: sum.splits prod.splits if_splits)

section \<open>Runs on the example trees\<close>

text \<open>
  Rules that let the simplifier run the definitions on numerals, and the definitions it
  unfolds to run the visitor on the example trees.
\<close>

lemma replicate_unfold: "replicate (numeral v) x = x # replicate (numeral v - 1) x"
  by (simp only: numeral_eq_Suc [of v] replicate_Suc diff_Suc_1)

lemma list_update_unfold: "(x # xs)[numeral v := y] = x # xs[numeral v - 1 := y]"
  by (simp only: numeral_eq_Suc [of v] list_update_code diff_Suc_1)

lemma le_bytes_unfold:
  "le_bytes (numeral v) n = word_of_nat (n mod 256) # le_bytes (numeral v - 1) (n div 256)"
  by (simp only: numeral_eq_Suc [of v] le_bytes.simps diff_Suc_1)

lemmas eval_list = replicate_unfold list_update_unfold le_bytes_unfold

lemmas eval_defs =
  assemble_FirmwareVolume_def placement_def assemble_File_def assemble_Section_def place_file_def
  patch_header_def resize_def new_offset_def
  Align_def Align4_def Align8_def GetAlignment_def fileAlignConst_def IsLarge_def
  HeaderLen_of_def FileHeaderMinLength_def FileHeaderExtMinLength_def
  GetErasePolarity_def InsertFile_def CreatePadFile_def SetSize_def
  ChecksumAndAssemble_def header_bytes_def GenSecHeader_def section_header_bytes_def
  type_specific_bytes_def
  SectionMinLength_def SectionTypeGUIDDefined_def GUIDEDSectionProcessingRequired_def
  Erase_def make_bytes_def PutUint64_def PutUint32_def PutUint16_def PutUint_def
  Checksum16_def le_word_def Let_def

lemmas example_defs =
  example_externals_def example_header_def example_volume_def example_file_def
  example_file_rebuilt_def example_volume_rebuilt_def example_nested_file_def
  example_file_with_children_def example_section_def example_section_rebuilt_def
  example_externals_spare_def

lemma Visit_example_72:
  "Visit_FV example_externals 0 (FV (example_volume 0x08 72) [File (example_file 0x00) []])
     = Inr (0xFF, FV (example_volume_rebuilt 72 [17, 237]) [File (example_file_rebuilt 0x00) []])"
  by (simp add: eval_defs example_defs eval_list)

text \<open>
  C2 as stated fails on a header length below 52. The example volume with a header length
  of 48 and one file is rebuilt without error, the two checksum bytes \<open>0xBA 0xEF\<close> are
  stored at offset 50, outside \<open>buf[0..48]\<close>, and the 16-bit sum over \<open>buf[0..48]\<close> is
  4166, not zero.
\<close>

theorem FirmwareVolume_checksum_short_header:
  "Visit_FV example_externals 0 (FV (example_volume 0x08 48) [File (example_file 0x00) []])
     = Inr (0xFF, FV (example_volume_rebuilt 48 [186, 239]) [File (example_file_rebuilt 0x00) []])
   \<and> Checksum16 (take (unat (HeaderLen (example_volume_rebuilt 48 [186, 239])))
                    (buf (example_volume_rebuilt 48 [186, 239]))) = Inr 4166"
  by (simp add: eval_defs example_defs eval_list)

text \<open>
  The zero-sum theorem at the example volume with a header length of 72.
\<close>

theorem FirmwareVolume_checksum_zero_sum_witness:
  "Visit_FV example_externals 0 (FV (example_volume 0x08 72) [File (example_file 0x00) []])
     = Inr (0xFF, FV (example_volume_rebuilt 72 [17, 237]) [File (example_file_rebuilt 0x00) []])
   \<and> 52 \<le> unat (HeaderLen (example_volume 0x08 72))
   \<and> Checksum16 (take (unat (HeaderLen (example_volume_rebuilt 72 [17, 237])))
                    (buf (example_volume_rebuilt 72 [17, 237]))) = Inr 0"
proof -
  have h2: "[File (example_file 0x00) []] \<noteq> []" by simp
  have h3: "52 \<le> unat (HeaderLen (example_volume 0x08 72))"
    by (simp add: example_volume_def)
  have h4: "unat (HeaderLen (example_volume 0x08 72))
              \<le> length (buf (example_volume_rebuilt 72 [17, 237]))"
    by (simp add: example_defs)
  show ?thesis
    using FirmwareVolume_checksum_zero_sum [OF Visit_example_72 h2 h3 h4] Visit_example_72 h3
    by (intro conjI)
qed

text \<open>
  The precondition theorem at the example volume with a data offset of 64 in front of a
  buffer of 72 bytes.
\<close>

theorem FirmwareVolume_preconditions_witness:
  "unat (DataOffset ((example_volume 0x08 72)\<lparr>DataOffset := 64\<rparr>))
     \<noteq> length (buf ((example_volume 0x08 72)\<lparr>DataOffset := 64\<rparr>))
   \<and> assemble_FirmwareVolume example_externals 0xFF
         ((example_volume 0x08 72)\<lparr>DataOffset := 64\<rparr>)
         (map file_Node [File (example_file 0x00) []])
       = Inl (HeaderSizeMismatch 72 64)"
proof -
  have h1: "[File (example_file 0x00) []] \<noteq> []" by simp
  have h2: "unat (DataOffset ((example_volume 0x08 72)\<lparr>DataOffset := 64\<rparr>))
              \<noteq> length (buf ((example_volume 0x08 72)\<lparr>DataOffset := 64\<rparr>))"
    by (simp add: example_volume_def example_header_def)
  have h2': "unat (Length ((example_volume 0x08 72)\<lparr>DataOffset := 64\<rparr>))
               < length (buf ((example_volume 0x08 72)\<lparr>DataOffset := 64\<rparr>))
             \<or> unat (DataOffset ((example_volume 0x08 72)\<lparr>DataOffset := 64\<rparr>))
              \<noteq> length (buf ((example_volume 0x08 72)\<lparr>DataOffset := 64\<rparr>))"
    using h2 by (rule disjI2)
  have "assemble_FirmwareVolume example_externals 0xFF
         ((example_volume 0x08 72)\<lparr>DataOffset := 64\<rparr>)
         (map file_Node [File (example_file 0x00) []])
       = Inl (if unat (Length ((example_volume 0x08 72)\<lparr>DataOffset := 64\<rparr>))
                  < length (buf ((example_volume 0x08 72)\<lparr>DataOffset := 64\<rparr>))
              then BufferBiggerThanLength (unat (Length ((example_volume 0x08 72)\<lparr>DataOffset := 64\<rparr>)))
                     (length (buf ((example_volume 0x08 72)\<lparr>DataOffset := 64\<rparr>)))
              else HeaderSizeMismatch (length (buf ((example_volume 0x08 72)\<lparr>DataOffset := 64\<rparr>)))
                     (unat (DataOffset ((example_volume 0x08 72)\<lparr>DataOffset := 64\<rparr>))))"
    using FirmwareVolume_preconditions [where ext = example_externals and polarity = "0xFF", OF h1 h2'] by (rule conjunct1)
  then have "assemble_FirmwareVolume example_externals 0xFF
         ((example_volume 0x08 72)\<lparr>DataOffset := 64\<rparr>)
         (map file_Node [File (example_file 0x00) []])
       = Inl (HeaderSizeMismatch 72 64)"
    by (simp add: example_volume_def example_header_def)
  with h2 show ?thesis by (intro conjI)
qed

text \<open>
  A header length past the length of the rebuilt buffer, within its capacity: the
  example volume with a header length of 100 is rebuilt to 96 bytes without error, and
  the checksum \<open>0x62 0x75\<close> sums 4 bytes of the backing array past the length.
\<close>

lemma Visit_header_past_length:
  "Visit_FV example_externals_spare 0
       (FV (example_volume 0x08 100) [File (example_file 0x00) []])
     = Inr (0xFF, FV (example_volume_rebuilt 100 [98, 117])
                     [File (example_file_rebuilt 0x00) []])"
  by (simp add: eval_defs example_defs eval_list)

text \<open>
  The whole volume case on the example volume with two files, the second with a data
  alignment of 16: the length grows to two blocks, the header is patched, and 48 bytes
  of \<open>0xFF\<close> follow the buffer the loop left.
\<close>

lemma assemble_two_files:
  "assemble_FirmwareVolume example_externals 0xFF (example_volume 0x08 72)
       ([example_file_rebuilt 0x00] @ example_file_rebuilt 0x08 # [])
     = Inr example_two_files_rebuilt"
  by (simp add: example_two_files_rebuilt_def pad_bytes_def eval_defs example_defs eval_list)

text \<open>
  The pad-file theorem at the same volume: the first file ends at 96, the tentative gap
  is 8, the data moves to the next boundary, and a pad file of 24 bytes fills the gap in
  front of the file at 120.
\<close>

theorem pad_file_invariant_witness:
  "assemble_FirmwareVolume example_externals 0xFF (example_volume 0x08 72)
       ([example_file_rebuilt 0x00] @ example_file_rebuilt 0x08 # [])
     = Inr example_two_files_rebuilt
   \<and> file_placed example_externals 0xFF (example_header 0x08 72)
         [example_file_rebuilt 0x00] (example_file_rebuilt 0x08) []
         (example_header 0x08 72 @ file_buf (example_file_rebuilt 0x00)
              @ pad_bytes example_externals 0xFF 24 @ file_buf (example_file_rebuilt 0x08))
   \<and> emitted_from 0xFF example_two_files_rebuilt
         (example_header 0x08 72 @ file_buf (example_file_rebuilt 0x00)
              @ pad_bytes example_externals 0xFF 24 @ file_buf (example_file_rebuilt 0x08))"
proof -
  have h: "placement example_externals 0xFF (example_volume 0x08 72)
       ([example_file_rebuilt 0x00] @ example_file_rebuilt 0x08 # [])
     = Inr (example_header 0x08 72 @ file_buf (example_file_rebuilt 0x00)
              @ pad_bytes example_externals 0xFF 24 @ file_buf (example_file_rebuilt 0x08),
            144)"
    by (simp add: pad_bytes_def eval_defs example_defs eval_list)
  have b: "buf (example_volume 0x08 72) = example_header 0x08 72"
    by (simp add: example_volume_def)
  from pad_file_invariant [OF assemble_two_files] obtain bF offF where
    pl: "placement example_externals 0xFF (example_volume 0x08 72)
           ([example_file_rebuilt 0x00] @ example_file_rebuilt 0x08 # []) = Inr (bF, offF)"
    and fp: "file_placed example_externals 0xFF (buf (example_volume 0x08 72))
               [example_file_rebuilt 0x00] (example_file_rebuilt 0x08) [] bF"
    and em: "emitted_from 0xFF example_two_files_rebuilt bF"
    by blast
  have bF: "bF = example_header 0x08 72 @ file_buf (example_file_rebuilt 0x00)
              @ pad_bytes example_externals 0xFF 24 @ file_buf (example_file_rebuilt 0x08)"
    using pl h by simp
  show ?thesis
    using assemble_two_files fp em unfolding bF b by (intro conjI)
qed


text \<open>
  C4. The example volume has erase polarity \<open>0xFF\<close>, so the state byte of its files
  should read \<open>0x07 XOR 0xFF = 0xF8\<close>. Its first file holds, in a section, a nested
  volume of erase polarity \<open>0x00\<close>. Entering the nested volume overwrites the
  process-wide polarity, which is never restored: the first file and the plain file
  after it are both written with the state byte \<open>0x07\<close>.
\<close>

theorem File_state_after_nested_volume:
  "visited_state_bytes example_externals 0
     (FV (example_volume 0x08 72) [example_nested_file, File (example_file 0x00) []])
     = Inr [0x07, 0x07]
   \<and> 0x07 XOR GetErasePolarity (example_volume 0x08 72) = 0xF8"
  by (simp add: visited_state_bytes_def state_bytes_def eval_defs example_defs eval_list)

end
